theory Spec2Isabelle
  imports Complex_Main "HOL-Library.Word"
begin

section \<open>Edge gunshot detector: feature extraction and decision pipeline\<close>

text \<open>
  A shallow embedding of \<^verbatim>\<open>gunshot_detector_v1192_official.c\<close>. The C file keeps its
  state in file-level statics; here they are the fields of one record that every function
  takes and returns. What the program reads from its surroundings (the clock, the
  configuration file, the allocator, the FFTW plan, the LAROD job, the SMTP transfer) is
  an explicit argument of the function that reads it.

  The C \<^verbatim>\<open>float\<close> values are modelled by the real numbers they denote: comparisons are
  exact on both sides, and the rounding of single-precision arithmetic is not modelled.
  Counters declared \<^verbatim>\<open>uint32_t\<close> are natural numbers reduced modulo \<open>2 ^ 32\<close> where the
  C code increments them.
\<close>

subsection \<open>Constants\<close>

definition N_FFT :: nat where "N_FFT = 1024"
definition HOP_LENGTH :: nat where "HOP_LENGTH = 512"
definition N_MELS :: nat where "N_MELS = 28"
definition N_FRAMES :: nat where "N_FRAMES = 160"
definition EXPECTED_INPUT_SIZE :: nat where "EXPECTED_INPUT_SIZE = N_MELS * N_FRAMES"
definition TARGET_SAMPLE_RATE :: nat where "TARGET_SAMPLE_RATE = 22050"
definition AUDIO_BUFFER_SIZE :: nat where "AUDIO_BUFFER_SIZE = 180800"
definition INFERENCE_THRESHOLD :: nat where "INFERENCE_THRESHOLD = 88000"
definition N_FFT_BINS :: nat where "N_FFT_BINS = N_FFT div 2 + 1"
definition MEL_FMIN :: real where "MEL_FMIN = 0"
definition MEL_FMAX :: real where "MEL_FMAX = real TARGET_SAMPLE_RATE / 2"
definition EMAIL_RATE_LIMIT_SECONDS :: int where "EMAIL_RATE_LIMIT_SECONDS = 120"
definition MIN_RMS_THRESHOLD :: real where "MIN_RMS_THRESHOLD = 1 / 1000"

text \<open>
  The quantization parameters of the model, written as literals in \<^verbatim>\<open>quantize_input\<close>
  and again in \<^verbatim>\<open>process_gunshot_detection\<close>.
\<close>

definition scale :: real where
  "scale = 3921568859368563 / 10 ^ 18"

definition zero_point :: int where
  "zero_point = - 128"

subsection \<open>Quantizer\<close>

text \<open>C's \<^verbatim>\<open>roundf\<close>: to the nearest integer, halfway cases away from zero.\<close>

definition roundf :: "real \<Rightarrow> int" where
  "roundf x = (if 0 \<le> x then \<lfloor>x + 1 / 2\<rfloor> else - \<lfloor>- x + 1 / 2\<rfloor>)"

text \<open>
  The body of the loop of \<^verbatim>\<open>quantize_input\<close> for one element, in three steps: the
  integer before clamping, the two clamping tests, and the cast to \<^verbatim>\<open>int8_t\<close>.
\<close>

definition quantize_pre :: "real \<Rightarrow> int" where
  "quantize_pre mel_value =
     (let centered_value = (mel_value - 1 / 2) * 2
      in roundf (centered_value / scale) + zero_point)"

definition clamp_int8 :: "int \<Rightarrow> int" where
  "clamp_int8 quantized =
     (let q1 = (if quantized < - 128 then - 128 else quantized)
      in (if q1 > 127 then 127 else q1))"

definition quantize_value :: "real \<Rightarrow> 8 word" where
  "quantize_value mel_value = word_of_int (clamp_int8 (quantize_pre mel_value))"

text \<open>
  \<^verbatim>\<open>quantize_input\<close> walks the first \<open>EXPECTED_INPUT_SIZE\<close> entries of the feature
  array (the array always has that many in the program).
\<close>

definition quantize_input :: "real list \<Rightarrow> 8 word list" where
  "quantize_input mel_features = map quantize_value (take EXPECTED_INPUT_SIZE mel_features)"

text \<open>
  The inverse affine map in the words of the specification, \<open>(q - zero_point) \<cdot> scale\<close>,
  to be compared with what the C code computes.
\<close>

definition spec_dequantize :: "8 word \<Rightarrow> real" where
  "spec_dequantize q = real_of_int (sint q - zero_point) * scale"

subsection \<open>Program state and surroundings\<close>

datatype priority = LOG_ERR | LOG_WARNING | LOG_INFO | LOG_DEBUG

text \<open>
  A line written to the system log: its priority and the leading ASCII text of the
  format string (the values substituted into it are not recorded).
\<close>

type_synonym log_entry = "priority \<times> string"

text \<open>
  The file-level statics of the C file that the modelled functions read or write. The
  SMTP server, port and password only shape the outgoing message and are left out.
  Three fields observe effects outside the process: \<open>syslog_out\<close> (lines written to the
  system log), \<open>emails_sent\<close> (completed SMTP transfers: time, confidence, RMS) and
  \<open>larod_jobs\<close> (the number of \<^verbatim>\<open>larodRunJob\<close> calls made). \<open>input_tensor\<close> is the memory
  mapped at \<^verbatim>\<open>inputTensorAddr\<close>.
\<close>

record state =
  confidence_threshold :: real
  email_enabled :: bool
  smtp_username :: string
  recipient_email :: string
  last_email_time :: int
  mel_filter_bank :: "real list list"
  mel_filters_initialized :: bool
  hann_window :: "real list"
  fft_initialized :: bool
  input_tensor :: "8 word list"
  audio_buffer :: "real list"
  samples_accumulated :: nat
  debug_counter :: nat
  first_inference :: bool
  ml_ready :: bool
  inference_count :: nat
  detection_count :: nat
  last_config_check :: int
  last_mtime :: int
  syslog_out :: "log_entry list"
  emails_sent :: "(int \<times> real \<times> real) list"
  larod_jobs :: nat

text \<open>
  One line of the configuration file, as the library calls of \<^verbatim>\<open>load_config\<close> see it:
  whether \<^verbatim>\<open>strstr\<close> finds the key \<^verbatim>\<open>threshold=\<close>, the integer \<^verbatim>\<open>sscanf\<close> reads with
  the format \<^verbatim>\<open>threshold="%d"\<close> (\<open>None\<close> when it does not return 1), and the strings read
  for the other keys (\<open>None\<close> when the key is absent or \<^verbatim>\<open>sscanf\<close> does not return 1).
\<close>

record cfg_line =
  threshold_key :: bool
  threshold_scan :: "int option"
  email_enabled_scan :: "string option"
  smtp_username_scan :: "string option"
  recipient_email_scan :: "string option"

text \<open>
  What one callback reads from outside the process: the clock (read separately by the
  configuration check and by the e-mail rate limiter), the configuration file (\<open>None\<close>
  when \<^verbatim>\<open>fopen\<close> fails) and its modification time (\<open>None\<close> when \<^verbatim>\<open>stat\<close> fails), whether
  the FFT buffers can be allocated and the plan created, the transform the FFTW plan
  computes, the answer of the LAROD job for a given input tensor (\<open>None\<close> when
  \<^verbatim>\<open>larodRunJob\<close> fails), and whether libcurl initialises and completes the transfer.
\<close>

record env =
  clock_config :: int
  clock_email :: int
  config_file :: "cfg_line list option"
  config_stat :: "int option"
  fft_alloc_ok :: bool
  fft_plan_ok :: bool
  fftwf_execute :: "complex list \<Rightarrow> complex list"
  larod_init_ok :: bool
  larodRunJob :: "8 word list \<Rightarrow> (8 word \<times> 8 word) option"
  curl_init_ok :: bool
  curl_perform_ok :: bool

definition syslog :: "priority \<Rightarrow> string \<Rightarrow> state \<Rightarrow> state" where
  "syslog p msg st = st\<lparr>syslog_out := syslog_out st @ [(p, msg)]\<rparr>"

subsection \<open>Configuration\<close>

text \<open>The threshold block of the line loop of \<^verbatim>\<open>load_config\<close>.\<close>

definition load_config_threshold :: "cfg_line \<Rightarrow> state \<Rightarrow> state" where
  "load_config_threshold line st =
     (if threshold_key line then
        (let st1 = syslog LOG_INFO ''[CONFIG] Found threshold line, attempting to parse...'' st;
             st2 = syslog LOG_INFO ''[CONFIG] Trying to parse line'' st1;
             st3 = syslog LOG_INFO ''[CONFIG] sscanf returned'' st2
         in case threshold_scan line of
              Some threshold_int \<Rightarrow>
                (let threshold = real_of_int threshold_int / 100;
                     st4 = syslog LOG_INFO ''[CONFIG] Successfully parsed threshold'' st3
                 in if threshold \<ge> 30 / 100 \<and> threshold \<le> 70 / 100 then
                      syslog LOG_INFO ''[CONFIG] Updated threshold''
                        (st4\<lparr>confidence_threshold := threshold\<rparr>)
                    else
                      syslog LOG_WARNING ''[CONFIG] Threshold out of range (30-70%), keeping'' st4)
            | None \<Rightarrow> syslog LOG_WARNING ''[CONFIG] Failed to parse threshold from line'' st3)
      else st)"

text \<open>The blocks for the other keys that the model keeps.\<close>

definition load_config_email :: "cfg_line \<Rightarrow> state \<Rightarrow> state" where
  "load_config_email line st =
     (let st1 = (case email_enabled_scan line of
                   Some enabled_str \<Rightarrow>
                     syslog LOG_INFO ''[CONFIG] Email notifications''
                       (st\<lparr>email_enabled := (enabled_str = ''yes'')\<rparr>)
                 | None \<Rightarrow> st);
          st2 = (case smtp_username_scan line of
                   Some u \<Rightarrow> syslog LOG_INFO ''[CONFIG] SMTP username'' (st1\<lparr>smtp_username := u\<rparr>)
                 | None \<Rightarrow> st1)
      in (case recipient_email_scan line of
            Some r \<Rightarrow> syslog LOG_INFO ''[CONFIG] Recipient email'' (st2\<lparr>recipient_email := r\<rparr>)
          | None \<Rightarrow> st2))"

definition load_config_line :: "cfg_line \<Rightarrow> state \<Rightarrow> state" where
  "load_config_line line st =
     load_config_email line (load_config_threshold line (syslog LOG_INFO ''[CONFIG] Line'' st))"

definition load_config :: "env \<Rightarrow> state \<Rightarrow> state" where
  "load_config e st =
     (let st1 = syslog LOG_INFO ''[CONFIG] Loading configuration'' st
      in case config_file e of
           None \<Rightarrow>
             syslog LOG_INFO ''[CONFIG] Using defaults''
               (syslog LOG_WARNING ''[CONFIG] File not found'' st1)
         | Some lines \<Rightarrow>
             fold load_config_line lines
               (syslog LOG_INFO ''[CONFIG] Reading Axis parameter file...'' st1))"








definition check_config_changes :: "env \<Rightarrow> state \<Rightarrow> state" where
  "check_config_changes e st =
     (let now = clock_config e
      in if now - last_config_check st < 5 then st
         else
           (let st1 = st\<lparr>last_config_check := now\<rparr>
            in case config_stat e of
                 Some mtime \<Rightarrow>
                   if mtime \<noteq> last_mtime st1 then
                     load_config e
                       (syslog LOG_INFO ''[CONFIG] Configuration file changed, reloading...''
                          (st1\<lparr>last_mtime := mtime\<rparr>))
                   else st1
               | None \<Rightarrow> st1))"

definition setup_config_monitoring :: "env \<Rightarrow> state \<Rightarrow> state" where
  "setup_config_monitoring e st =
     (syslog LOG_INFO ''[CONFIG] Setting up file-based parameter monitoring'' st)
       \<lparr>last_config_check := clock_config e\<rparr>"

subsection \<open>E-mail notification\<close>

definition send_email_notification :: "env \<Rightarrow> real \<Rightarrow> real \<Rightarrow> state \<Rightarrow> bool \<times> state" where
  "send_email_notification e confidence rms st =
     (if \<not> email_enabled st \<or> length (smtp_username st) = 0 \<or> length (recipient_email st) = 0
      then (False, st)
      else
        (let current_time = clock_email e
         in if current_time - last_email_time st < EMAIL_RATE_LIMIT_SECONDS then
              (False, syslog LOG_DEBUG ''[EMAIL] Rate limited'' st)
            else if \<not> curl_init_ok e then
              (False, syslog LOG_ERR ''[EMAIL] Failed to initialize curl'' st)
            else
              (let st1 = syslog LOG_INFO ''[EMAIL] Connecting'' st;
                   st2 = syslog LOG_INFO ''[EMAIL] Attempting to send email'' st1;
                   st3 = syslog LOG_INFO ''[EMAIL] Username'' st2
               in if curl_perform_ok e then
                    (True,
                     syslog LOG_INFO ''[EMAIL] Gunshot alert sent''
                       (st3\<lparr>last_email_time := current_time,
                            emails_sent := emails_sent st3 @ [(current_time, confidence, rms)]\<rparr>))
                  else
                    (False,
                     syslog LOG_ERR ''[EMAIL] Debug''
                       (syslog LOG_ERR ''[EMAIL] Failed to send email'' st3)))))"

subsection \<open>FFT workspace\<close>

text \<open>
  \<^verbatim>\<open>init_fft_workspace\<close>: returns at once when the workspace exists; otherwise it
  allocates the buffers, creates the plan and fills the Hann window, and reports a
  failure of either step without setting \<open>fft_initialized\<close>.
\<close>

definition init_fft_workspace :: "env \<Rightarrow> state \<Rightarrow> bool \<times> state" where
  "init_fft_workspace e st =
     (if fft_initialized st then (True, st)
      else if \<not> fft_alloc_ok e then
        (False, syslog LOG_ERR ''[FFT] Failed to allocate FFT workspace'' st)
      else if \<not> fft_plan_ok e then
        (False, syslog LOG_ERR ''[FFT] Failed to create FFT plan'' st)
      else
        (True,
         syslog LOG_INFO ''[FFT] FFT workspace initialized successfully''
           (st\<lparr>hann_window :=
                  map (\<lambda>i. (1 / 2) * (1 - cos (2 * pi * real i / real (N_FFT - 1)))) [0..<N_FFT],
               fft_initialized := True\<rparr>)))"

text \<open>
  The transform a plan made by \<^verbatim>\<open>fftwf_plan_dft_1d\<close> with \<^verbatim>\<open>FFTW_FORWARD\<close> computes: the
  unnormalised forward discrete Fourier transform.
\<close>

definition forward_dft :: "complex list \<Rightarrow> complex list" where
  "forward_dft xs =
     map (\<lambda>k. \<Sum>n < length xs. xs ! n * cis (- (2 * pi * real k * real n / real (length xs))))
       [0..<length xs]"

subsection \<open>Mel filter bank\<close>

definition hz_to_mel :: "real \<Rightarrow> real" where
  "hz_to_mel hz = 2595 * log 10 (1 + hz / 700)"

definition mel_to_hz :: "real \<Rightarrow> real" where
  "mel_to_hz mel = 700 * (10 powr (mel / 2595) - 1)"

definition mel_points :: "real list" where
  "mel_points =
     (let mel_min = hz_to_mel MEL_FMIN; mel_max = hz_to_mel MEL_FMAX
      in map (\<lambda>i. mel_min + (mel_max - mel_min) * real i / real (N_MELS + 1)) [0..<N_MELS + 2])"

definition hz_points :: "real list" where
  "hz_points = map mel_to_hz mel_points"

definition bin_points :: "int list" where
  "bin_points =
     map (\<lambda>hz. let b = \<lfloor>hz * real N_FFT / real TARGET_SAMPLE_RATE\<rfloor>
               in if b \<ge> int N_FFT_BINS then int N_FFT_BINS - 1 else b)
       hz_points"

text \<open>
  The two edge loops of one row. Each runs \<open>k\<close> up to its bound and stores one weight
  per step; the row is the list of \<open>N_FFT_BINS\<close> entries of \<^verbatim>\<open>mel_filter_bank[m]\<close>.
\<close>

function rising_edge :: "int \<Rightarrow> int \<Rightarrow> int \<Rightarrow> real list \<Rightarrow> real list" where
  "rising_edge k left center row =
     (if k < center then
        rising_edge (k + 1) left center
          (if center > left
           then row[nat k := real_of_int (k - left) / real_of_int (center - left)]
           else row)
      else row)"
  by pat_completeness auto
termination
  by (relation "measure (\<lambda>(k, left, center, row). nat (center - k))") auto

declare rising_edge.simps [simp del]

function falling_edge :: "int \<Rightarrow> int \<Rightarrow> int \<Rightarrow> real list \<Rightarrow> real list" where
  "falling_edge k center right row =
     (if k < right then
        falling_edge (k + 1) center right
          (if right > center
           then row[nat k := real_of_int (right - k) / real_of_int (right - center)]
           else row)
      else row)"
  by pat_completeness auto
termination
  by (relation "measure (\<lambda>(k, center, right, row). nat (right - k))") auto

declare falling_edge.simps [simp del]

text \<open>The row after both edge loops, before the area normalisation.\<close>

definition mel_triangle :: "int \<Rightarrow> int \<Rightarrow> int \<Rightarrow> real list" where
  "mel_triangle left center right =
     falling_edge center center right
       (rising_edge left left center (replicate N_FFT_BINS 0))"

definition row_area :: "real list \<Rightarrow> real" where
  "row_area row = fold (\<lambda>k area. area + row ! k) [0..<N_FFT_BINS] 0"

definition slaney_normalize :: "real list \<Rightarrow> real list" where
  "slaney_normalize row =
     (let area = row_area row
      in if area > 0 then map (\<lambda>w. w / area) row else row)"

definition mel_filter_row :: "nat \<Rightarrow> real list" where
  "mel_filter_row m =
     (let left = bin_points ! m; center = bin_points ! (m + 1); right = bin_points ! (m + 2)
      in slaney_normalize (mel_triangle left center right))"

definition init_mel_filter_bank :: "state \<Rightarrow> bool \<times> state" where
  "init_mel_filter_bank st =
     (if mel_filters_initialized st then (True, st)
      else
        (True,
         syslog LOG_INFO ''[MEL] Mel filter bank initialized successfully''
           ((syslog LOG_INFO ''[MEL] Initializing mel filter bank'' st)
              \<lparr>mel_filter_bank := map mel_filter_row [0..<N_MELS],
               mel_filters_initialized := True\<rparr>)))"

subsection \<open>Feature extractor\<close>

text \<open>The cast \<^verbatim>\<open>(int)num_samples\<close> of a \<^verbatim>\<open>size_t\<close>: the low 32 bits, read as signed.\<close>

definition size_to_int :: "nat \<Rightarrow> int" where
  "size_to_int n = sint (word_of_nat n :: 32 word)"

text \<open>
  One frame: the windowed samples written to \<^verbatim>\<open>fft_in\<close> (zero where the index passes the
  end of the buffer), the power spectrum read from \<^verbatim>\<open>fft_out\<close>, and the loop over the
  mel bands that stores one normalised value per band in row \<open>frame_count\<close>.
\<close>

definition fill_fft_in :: "real list \<Rightarrow> real list \<Rightarrow> int \<Rightarrow> complex list" where
  "fill_fft_in hann audio start =
     map (\<lambda>i. if start + int i < size_to_int (length audio)
              then complex_of_real (audio ! nat (start + int i) * hann ! i)
              else 0)
       [0..<N_FFT]"

definition power_spectrum :: "complex list \<Rightarrow> real list" where
  "power_spectrum fft_out =
     map (\<lambda>i. let re = Re (fft_out ! i); im = Im (fft_out ! i) in re * re + im * im)
       [0..<N_FFT_BINS]"

definition mel_energy :: "real list \<Rightarrow> real list \<Rightarrow> real" where
  "mel_energy filter_row spectrum =
     fold (\<lambda>k energy. energy + filter_row ! k * spectrum ! k) [0..<N_FFT_BINS] 0"

definition mel_normalized :: "real \<Rightarrow> real" where
  "mel_normalized energy =
     (let mel_db = 10 * log 10 (max energy (1 / 10 ^ 10));
          n0 = (mel_db - (- 80)) / (0 - (- 80));
          n1 = (if n0 < 0 then 0 else n0)
      in (if n1 > 1 then 1 else n1))"

definition mel_frame :: "real list list \<Rightarrow> real list \<Rightarrow> nat \<Rightarrow> real list \<Rightarrow> real list" where
  "mel_frame bank spectrum frame_count output =
     fold (\<lambda>m out. out[frame_count * N_MELS + m := mel_normalized (mel_energy (bank ! m) spectrum)])
       [0..<N_MELS] output"

text \<open>
  The frame loop of \<^verbatim>\<open>compute_mel_spectrogram\<close>, with the loop test of the source; it
  returns the number of frames produced and the output array.
\<close>

function frame_loop ::
  "(complex list \<Rightarrow> complex list) \<Rightarrow> real list \<Rightarrow> real list list \<Rightarrow> real list \<Rightarrow>
   int \<Rightarrow> nat \<Rightarrow> real list \<Rightarrow> nat \<times> real list" where
  "frame_loop plan hann bank audio start frame_count output =
     (if start < size_to_int (length audio) - int N_FFT \<and> frame_count < N_FRAMES then
        frame_loop plan hann bank audio (start + int HOP_LENGTH) (frame_count + 1)
          (mel_frame bank (power_spectrum (plan (fill_fft_in hann audio start))) frame_count output)
      else (frame_count, output))"
  by pat_completeness auto
termination
  by (relation "measure (\<lambda>(plan, hann, bank, audio, start, frame_count, output).
        N_FRAMES - frame_count)") auto

declare frame_loop.simps [simp del]

definition compute_mel_spectrogram :: "env \<Rightarrow> real list \<Rightarrow> state \<Rightarrow> real list \<times> state" where
  "compute_mel_spectrogram e audio st =
     (let (fft_ok, st1) = init_fft_workspace e st;
          (mel_ok, st2) = (if fft_ok then init_mel_filter_bank st1 else (False, st1))
      in if \<not> fft_ok \<or> \<not> mel_ok then
           (replicate EXPECTED_INPUT_SIZE 0,
            syslog LOG_ERR ''[MEL] Failed to initialize FFT workspace or mel filter bank'' st2)
         else
           (let (frame_count, output) =
                  frame_loop (fftwf_execute e) (hann_window st2) (mel_filter_bank st2) audio
                    0 0 (replicate EXPECTED_INPUT_SIZE 0)
            in (output, syslog LOG_INFO ''[MEL] Computed mel spectrogram'' st2)))"

subsection \<open>Inference pass and decision\<close>

text \<open>
  The loudness of the \<open>num_samples\<close> samples handed to the pass: the loop that sums the
  squares, then the root of the mean. (For no samples at all the C code divides zero by
  zero; the callback always hands over \<open>AUDIO_BUFFER_SIZE\<close> samples.)
\<close>

definition sum_squares :: "real list \<Rightarrow> real" where
  "sum_squares audio_samples = fold (\<lambda>x acc. acc + x * x) audio_samples 0"

definition rms_of :: "real list \<Rightarrow> real" where
  "rms_of audio_samples = sqrt (sum_squares audio_samples / real (length audio_samples))"

text \<open>
  The score the code computes from one \<^verbatim>\<open>int8_t\<close> output of the model, and the two-way
  softmax applied to the two scores.
\<close>

definition output_score :: "8 word \<Rightarrow> real" where
  "output_score q = real_of_int (sint q) * scale + (- 128 * scale)"

definition softmax2 :: "real \<Rightarrow> real \<Rightarrow> real \<times> real" where
  "softmax2 output1 output2 =
     (let exp1 = exp output1; exp2 = exp output2; sum = exp1 + exp2
      in (exp1 / sum, exp2 / sum))"

definition process_gunshot_detection :: "env \<Rightarrow> real list \<Rightarrow> state \<Rightarrow> bool \<times> state" where
  "process_gunshot_detection e audio_samples st =
     (if \<not> ml_ready st then (False, st)
      else
        (let rms = rms_of audio_samples
         in if rms < MIN_RMS_THRESHOLD then
              (False, syslog LOG_DEBUG ''[SILENCE] Skipping inference on quiet audio'' st)
            else
              (let (mel_features, st1) = compute_mel_spectrogram e audio_samples st;
                   quantized_input = quantize_input mel_features;
                   st2 = st1\<lparr>input_tensor := quantized_input, larod_jobs := larod_jobs st1 + 1\<rparr>
               in case larodRunJob e quantized_input of
                    Some (q1, q2) \<Rightarrow>
                      (let (prob1, prob2) = softmax2 (output_score q1) (output_score q2);
                           gunshot_confidence = prob2 * 100;
                           st3 = st2\<lparr>inference_count := (inference_count st2 + 1) mod 2 ^ 32\<rparr>
                       in if prob2 > confidence_threshold st3 then
                            (let st4 = st3\<lparr>detection_count := (detection_count st3 + 1) mod 2 ^ 32\<rparr>;
                                 st5 = syslog LOG_WARNING ''[GUNSHOT DETECTED - CAMERA AUDIO]'' st4;
                                 st6 = syslog LOG_INFO ''[CAMERA] Gunshot (detected)'' st5
                             in (True,
                                 if email_enabled st6
                                 then snd (send_email_notification e gunshot_confidence rms st6)
                                 else st6))
                          else (False, syslog LOG_INFO ''[CAMERA] Gunshot (below threshold)'' st3))
                  | None \<Rightarrow> (False, syslog LOG_ERR ''Failed to run inference'' st2))))"

subsection \<open>Audio callback\<close>

text \<open>
  What \<^verbatim>\<open>pw_stream_dequeue_buffer\<close> hands to the callback: no buffer, a buffer without
  data, or a chunk of samples (\<open>chunk->size / sizeof(float)\<close> of them; the size is a
  32-bit byte count, so a chunk has fewer than \<open>2 ^ 30\<close> samples).
\<close>

datatype pw_buffer = No_Buffer | Null_Data | Chunk "real list"

definition on_process :: "env \<Rightarrow> bool \<Rightarrow> pw_buffer \<Rightarrow> state \<Rightarrow> state" where
  "on_process e is_target_stream b st =
     (case b of
        No_Buffer \<Rightarrow> syslog LOG_WARNING ''Out of buffers'' st
      | Null_Data \<Rightarrow> st
      | Chunk samples \<Rightarrow>
          (let n_samples = length samples
           in if is_target_stream \<and> ml_ready st then
                (let st1 = st\<lparr>debug_counter := (debug_counter st + 1) mod 2 ^ 32\<rparr>;
                     st2 = (if debug_counter st1 mod 1000 = 1
                            then syslog LOG_INFO ''[CAMERA] Audio activity'' st1 else st1);
                     st3 = (if debug_counter st2 mod 5000 = 0 then load_config e st2 else st2)
                 in if (samples_accumulated st3 + n_samples) mod 2 ^ 32 \<le> AUDIO_BUFFER_SIZE then
                      (let st4 = st3\<lparr>audio_buffer :=
                                        take (samples_accumulated st3) (audio_buffer st3) @ samples @
                                        drop (samples_accumulated st3 + n_samples) (audio_buffer st3),
                                      samples_accumulated :=
                                        (samples_accumulated st3 + n_samples) mod 2 ^ 32\<rparr>;
                           st5 = check_config_changes e st4
                       in if samples_accumulated st5 \<ge> INFERENCE_THRESHOLD then
                            (let st6 = (if first_inference st5
                                        then (syslog LOG_INFO
                                                ''*** STARTING REAL CAMERA AUDIO GUNSHOT DETECTION ***''
                                                st5)\<lparr>first_inference := False\<rparr>
                                        else st5);
                                 st7 = snd (process_gunshot_detection e
                                              (take AUDIO_BUFFER_SIZE (audio_buffer st6)) st6)
                             in st7\<lparr>samples_accumulated := 0\<rparr>)
                          else st5)
                    else st3)
              else st))"

subsection \<open>Start-up\<close>

text \<open>
  The values the statics have when the process starts, and the part of \<^verbatim>\<open>main\<close> that
  runs before the audio loop: it returns the exit status 1 when an initialisation fails,
  and otherwise the state with \<open>ml_ready\<close> set in which the callbacks run. The probe of
  parameter file locations, which only writes log lines, is left out, and the outcome of
  \<^verbatim>\<open>init_larod\<close> is read from the surroundings.
\<close>

definition initial_state :: state where
  "initial_state =
     \<lparr>confidence_threshold = 45 / 100, email_enabled = False, smtp_username = [],
      recipient_email = [], last_email_time = 0, mel_filter_bank = replicate N_MELS (replicate N_FFT_BINS 0),
      mel_filters_initialized = False, hann_window = [], fft_initialized = False,
      input_tensor = [], audio_buffer = replicate AUDIO_BUFFER_SIZE 0, samples_accumulated = 0,
      debug_counter = 0, first_inference = True, ml_ready = False, inference_count = 0,
      detection_count = 0, last_config_check = 0, last_mtime = 0, syslog_out = [],
      emails_sent = [], larod_jobs = 0\<rparr>"

definition main_init :: "env \<Rightarrow> state \<Rightarrow> int + state" where
  "main_init e st =
     (let st1 = syslog LOG_INFO ''Gunshot Detector v1.1.100 starting - Debug Parameter Parsing'' st;
          st2 = setup_config_monitoring e (load_config e st1)
      in if \<not> larod_init_ok e then Inl 1
         else
           (let (fft_ok, st3) = init_fft_workspace e st2;
                (mel_ok, st4) = (if fft_ok then init_mel_filter_bank st3 else (False, st3))
            in if \<not> fft_ok \<or> \<not> mel_ok then Inl 1
               else Inr (syslog LOG_INFO ''Machine learning pipeline ready'' (st4\<lparr>ml_ready := True\<rparr>))))"

subsection \<open>Notions used in the statements\<close>

text \<open>
  The conditions under which \<^verbatim>\<open>send_email_notification\<close> completes a transfer: the
  notification is enabled and addressed, the rate limit has elapsed, and libcurl succeeds.
\<close>

definition delivers :: "env \<Rightarrow> state \<Rightarrow> bool" where
  "delivers e st \<longleftrightarrow>
     email_enabled st \<and> smtp_username st \<noteq> [] \<and> recipient_email st \<noteq> [] \<and>
     clock_email e - last_email_time st \<ge> EMAIL_RATE_LIMIT_SECONDS \<and>
     curl_init_ok e \<and> curl_perform_ok e"

text \<open>The log line written for every pass that crosses the threshold.\<close>

abbreviation (input) detected_line :: log_entry where
  "detected_line \<equiv> (LOG_WARNING, ''[GUNSHOT DETECTED - CAMERA AUDIO]'')"

text \<open>
  Surroundings for worked examples: the clock reads \<open>t\<close>, there is no configuration
  file, allocation, plan and mail transfer succeed, the plan computes the forward DFT,
  and the inference engine is a stub that answers every tensor with the pair \<open>out\<close>.
\<close>

definition stub_env :: "int \<Rightarrow> 8 word \<times> 8 word \<Rightarrow> env" where
  "stub_env t out =
     \<lparr>clock_config = t, clock_email = t, config_file = None, config_stat = None,
      fft_alloc_ok = True, fft_plan_ok = True, fftwf_execute = forward_dft,
      larod_init_ok = True, larodRunJob = (\<lambda>tensor. Some out),
      curl_init_ok = True, curl_perform_ok = True\<rparr>"

text \<open>
  The fields a configuration reload leaves alone: everything but the threshold, the
  e-mail settings, the two time stamps of the configuration check and the log.
\<close>

definition config_frame :: "state \<Rightarrow> state \<Rightarrow> bool" where
  "config_frame st st' \<longleftrightarrow>
     audio_buffer st' = audio_buffer st \<and> samples_accumulated st' = samples_accumulated st \<and>
     ml_ready st' = ml_ready st \<and> debug_counter st' = debug_counter st \<and>
     first_inference st' = first_inference st \<and> fft_initialized st' = fft_initialized st \<and>
     mel_filters_initialized st' = mel_filters_initialized st \<and>
     mel_filter_bank st' = mel_filter_bank st \<and> hann_window st' = hann_window st \<and>
     input_tensor st' = input_tensor st \<and> inference_count st' = inference_count st \<and>
     detection_count st' = detection_count st \<and> emails_sent st' = emails_sent st \<and>
     larod_jobs st' = larod_jobs st \<and> last_email_time st' = last_email_time st"

text \<open>
  A run of callbacks on the target stream, each with the surroundings it finds.
\<close>

definition run_callbacks :: "(env \<times> pw_buffer) list \<Rightarrow> state \<Rightarrow> state" where
  "run_callbacks cs st = fold (\<lambda>(e, b). on_process e True b) cs st"

text \<open>
  What the accumulator keeps true, and the buffers the callback can be handed (the byte
  count of a chunk is a 32-bit number, so a chunk has fewer than \<open>2 ^ 30\<close> samples).
\<close>

definition accumulator_inv :: "state \<Rightarrow> bool" where
  "accumulator_inv st \<longleftrightarrow>
     samples_accumulated st \<le> AUDIO_BUFFER_SIZE \<and> length (audio_buffer st) = AUDIO_BUFFER_SIZE"

definition well_formed_buffer :: "pw_buffer \<Rightarrow> bool" where
  "well_formed_buffer b = (case b of Chunk samples \<Rightarrow> length samples < 2 ^ 30 | _ \<Rightarrow> True)"




text \<open>
  The state in which the callbacks run after a start-up in the surroundings \<open>e\<close> (the
  initial state when the start-up fails and no callback ever runs).
\<close>

definition started :: "env \<Rightarrow> state" where
  "started e = (case main_init e initial_state of Inr st \<Rightarrow> st | Inl status \<Rightarrow> initial_state)"






section \<open>Properties\<close>

subsection \<open>Which fields each function leaves alone\<close>

lemma syslog_fields [simp]:
  "confidence_threshold (syslog p m st) = confidence_threshold st"
  "email_enabled (syslog p m st) = email_enabled st"
  "smtp_username (syslog p m st) = smtp_username st"
  "recipient_email (syslog p m st) = recipient_email st"
  "last_email_time (syslog p m st) = last_email_time st"
  "mel_filter_bank (syslog p m st) = mel_filter_bank st"
  "mel_filters_initialized (syslog p m st) = mel_filters_initialized st"
  "hann_window (syslog p m st) = hann_window st"
  "fft_initialized (syslog p m st) = fft_initialized st"
  "input_tensor (syslog p m st) = input_tensor st"
  "audio_buffer (syslog p m st) = audio_buffer st"
  "samples_accumulated (syslog p m st) = samples_accumulated st"
  "debug_counter (syslog p m st) = debug_counter st"
  "first_inference (syslog p m st) = first_inference st"
  "ml_ready (syslog p m st) = ml_ready st"
  "inference_count (syslog p m st) = inference_count st"
  "detection_count (syslog p m st) = detection_count st"
  "last_config_check (syslog p m st) = last_config_check st"
  "last_mtime (syslog p m st) = last_mtime st"
  "emails_sent (syslog p m st) = emails_sent st"
  "larod_jobs (syslog p m st) = larod_jobs st"
  "syslog_out (syslog p m st) = syslog_out st @ [(p, m)]"
  by (simp_all add: syslog_def)

lemma init_fft_workspace_fields [simp]:
  "confidence_threshold (snd (init_fft_workspace e st)) = confidence_threshold st"
  "email_enabled (snd (init_fft_workspace e st)) = email_enabled st"
  "smtp_username (snd (init_fft_workspace e st)) = smtp_username st"
  "recipient_email (snd (init_fft_workspace e st)) = recipient_email st"
  "last_email_time (snd (init_fft_workspace e st)) = last_email_time st"
  "mel_filter_bank (snd (init_fft_workspace e st)) = mel_filter_bank st"
  "mel_filters_initialized (snd (init_fft_workspace e st)) = mel_filters_initialized st"
  "input_tensor (snd (init_fft_workspace e st)) = input_tensor st"
  "audio_buffer (snd (init_fft_workspace e st)) = audio_buffer st"
  "samples_accumulated (snd (init_fft_workspace e st)) = samples_accumulated st"
  "debug_counter (snd (init_fft_workspace e st)) = debug_counter st"
  "first_inference (snd (init_fft_workspace e st)) = first_inference st"
  "ml_ready (snd (init_fft_workspace e st)) = ml_ready st"
  "inference_count (snd (init_fft_workspace e st)) = inference_count st"
  "detection_count (snd (init_fft_workspace e st)) = detection_count st"
  "last_config_check (snd (init_fft_workspace e st)) = last_config_check st"
  "last_mtime (snd (init_fft_workspace e st)) = last_mtime st"
  "emails_sent (snd (init_fft_workspace e st)) = emails_sent st"
  "larod_jobs (snd (init_fft_workspace e st)) = larod_jobs st"
  by (simp_all add: init_fft_workspace_def)

lemma init_mel_filter_bank_fields [simp]:
  "confidence_threshold (snd (init_mel_filter_bank st)) = confidence_threshold st"
  "email_enabled (snd (init_mel_filter_bank st)) = email_enabled st"
  "smtp_username (snd (init_mel_filter_bank st)) = smtp_username st"
  "recipient_email (snd (init_mel_filter_bank st)) = recipient_email st"
  "last_email_time (snd (init_mel_filter_bank st)) = last_email_time st"
  "hann_window (snd (init_mel_filter_bank st)) = hann_window st"
  "fft_initialized (snd (init_mel_filter_bank st)) = fft_initialized st"
  "input_tensor (snd (init_mel_filter_bank st)) = input_tensor st"
  "audio_buffer (snd (init_mel_filter_bank st)) = audio_buffer st"
  "samples_accumulated (snd (init_mel_filter_bank st)) = samples_accumulated st"
  "debug_counter (snd (init_mel_filter_bank st)) = debug_counter st"
  "first_inference (snd (init_mel_filter_bank st)) = first_inference st"
  "ml_ready (snd (init_mel_filter_bank st)) = ml_ready st"
  "inference_count (snd (init_mel_filter_bank st)) = inference_count st"
  "detection_count (snd (init_mel_filter_bank st)) = detection_count st"
  "last_config_check (snd (init_mel_filter_bank st)) = last_config_check st"
  "last_mtime (snd (init_mel_filter_bank st)) = last_mtime st"
  "emails_sent (snd (init_mel_filter_bank st)) = emails_sent st"
  "larod_jobs (snd (init_mel_filter_bank st)) = larod_jobs st"
  by (simp_all add: init_mel_filter_bank_def)

lemma compute_mel_spectrogram_snd:
  "snd (compute_mel_spectrogram e a st) =
     (let st1 = snd (init_fft_workspace e st);
          st2 = (if fst (init_fft_workspace e st) then snd (init_mel_filter_bank st1) else st1)
      in if fst (init_fft_workspace e st) \<and> fst (init_mel_filter_bank st1)
         then syslog LOG_INFO ''[MEL] Computed mel spectrogram'' st2
         else syslog LOG_ERR ''[MEL] Failed to initialize FFT workspace or mel filter bank'' st2)"
  by (simp add: compute_mel_spectrogram_def Let_def split: prod.splits)

lemma compute_mel_spectrogram_fields [simp]:
  "confidence_threshold (snd (compute_mel_spectrogram e a st)) = confidence_threshold st"
  "email_enabled (snd (compute_mel_spectrogram e a st)) = email_enabled st"
  "smtp_username (snd (compute_mel_spectrogram e a st)) = smtp_username st"
  "recipient_email (snd (compute_mel_spectrogram e a st)) = recipient_email st"
  "last_email_time (snd (compute_mel_spectrogram e a st)) = last_email_time st"
  "input_tensor (snd (compute_mel_spectrogram e a st)) = input_tensor st"
  "audio_buffer (snd (compute_mel_spectrogram e a st)) = audio_buffer st"
  "samples_accumulated (snd (compute_mel_spectrogram e a st)) = samples_accumulated st"
  "debug_counter (snd (compute_mel_spectrogram e a st)) = debug_counter st"
  "first_inference (snd (compute_mel_spectrogram e a st)) = first_inference st"
  "ml_ready (snd (compute_mel_spectrogram e a st)) = ml_ready st"
  "inference_count (snd (compute_mel_spectrogram e a st)) = inference_count st"
  "detection_count (snd (compute_mel_spectrogram e a st)) = detection_count st"
  "last_config_check (snd (compute_mel_spectrogram e a st)) = last_config_check st"
  "last_mtime (snd (compute_mel_spectrogram e a st)) = last_mtime st"
  "emails_sent (snd (compute_mel_spectrogram e a st)) = emails_sent st"
  "larod_jobs (snd (compute_mel_spectrogram e a st)) = larod_jobs st"
  by (simp_all add: compute_mel_spectrogram_snd Let_def)

lemma send_email_notification_fields [simp]:
  "confidence_threshold (snd (send_email_notification e c r st)) = confidence_threshold st"
  "email_enabled (snd (send_email_notification e c r st)) = email_enabled st"
  "smtp_username (snd (send_email_notification e c r st)) = smtp_username st"
  "recipient_email (snd (send_email_notification e c r st)) = recipient_email st"
  "input_tensor (snd (send_email_notification e c r st)) = input_tensor st"
  "audio_buffer (snd (send_email_notification e c r st)) = audio_buffer st"
  "samples_accumulated (snd (send_email_notification e c r st)) = samples_accumulated st"
  "ml_ready (snd (send_email_notification e c r st)) = ml_ready st"
  "inference_count (snd (send_email_notification e c r st)) = inference_count st"
  "detection_count (snd (send_email_notification e c r st)) = detection_count st"
  "larod_jobs (snd (send_email_notification e c r st)) = larod_jobs st"
  "fft_initialized (snd (send_email_notification e c r st)) = fft_initialized st"
  "mel_filters_initialized (snd (send_email_notification e c r st)) = mel_filters_initialized st"
  by (simp_all add: send_email_notification_def Let_def)

lemma send_email_notification_emails:
  "emails_sent (snd (send_email_notification e c r st)) =
     (if delivers e st then emails_sent st @ [(clock_email e, c, r)] else emails_sent st)"
  "last_email_time (snd (send_email_notification e c r st)) =
     (if delivers e st then clock_email e else last_email_time st)"
  by (auto simp add: send_email_notification_def delivers_def Let_def)

lemma send_email_notification_log:
  "\<exists>new. syslog_out (snd (send_email_notification e c r st)) = syslog_out st @ new \<and>
         (LOG_WARNING, ''[GUNSHOT DETECTED - CAMERA AUDIO]'') \<notin> set new"
  by (auto simp add: send_email_notification_def Let_def)

lemma compute_mel_spectrogram_log:
  "\<exists>new. syslog_out (snd (compute_mel_spectrogram e a st)) = syslog_out st @ new \<and>
         (LOG_WARNING, ''[GUNSHOT DETECTED - CAMERA AUDIO]'') \<notin> set new"
  by (auto simp add: compute_mel_spectrogram_snd Let_def init_fft_workspace_def init_mel_filter_bank_def)

lemma pgd_not_ready: "\<not> ml_ready st \<Longrightarrow> process_gunshot_detection e a st = (False, st)"
  by (simp add: process_gunshot_detection_def)

lemma pgd_quiet:
  "ml_ready st \<Longrightarrow> rms_of a < MIN_RMS_THRESHOLD \<Longrightarrow>
   process_gunshot_detection e a st =
     (False, syslog LOG_DEBUG ''[SILENCE] Skipping inference on quiet audio'' st)"
  by (simp add: process_gunshot_detection_def)

lemma pgd_detected_state:
  assumes rdy: "ml_ready st" and loud: "\<not> rms_of a < MIN_RMS_THRESHOLD"
    and job: "larodRunJob e (quantize_input (fst (compute_mel_spectrogram e a st))) = Some (q1, q2)"
    and over: "confidence_threshold st < snd (softmax2 (output_score q1) (output_score q2))"
  shows "process_gunshot_detection e a st =
     (True,
      let st6 = syslog LOG_INFO ''[CAMERA] Gunshot (detected)''
                 (syslog LOG_WARNING ''[GUNSHOT DETECTED - CAMERA AUDIO]''
                   ((snd (compute_mel_spectrogram e a st))
                      \<lparr>input_tensor := quantize_input (fst (compute_mel_spectrogram e a st)),
                       larod_jobs := larod_jobs st + 1,
                       inference_count := (inference_count st + 1) mod 2 ^ 32,
                       detection_count := (detection_count st + 1) mod 2 ^ 32\<rparr>))
      in if email_enabled st
         then snd (send_email_notification e
                     (snd (softmax2 (output_score q1) (output_score q2)) * 100) (rms_of a) st6)
         else st6)"
proof -
  obtain mel st1 where cms: "compute_mel_spectrogram e a st = (mel, st1)"
    by (cases "compute_mel_spectrogram e a st")
  obtain p1 p2 where sm: "softmax2 (output_score q1) (output_score q2) = (p1, p2)"
    by (cases "softmax2 (output_score q1) (output_score q2)")
  have st1: "st1 = snd (compute_mel_spectrogram e a st)" "mel = fst (compute_mel_spectrogram e a st)"
    by (simp_all add: cms)
  have f: "confidence_threshold st1 = confidence_threshold st" "email_enabled st1 = email_enabled st"
    "larod_jobs st1 = larod_jobs st" "inference_count st1 = inference_count st"
    "detection_count st1 = detection_count st"
    by (simp_all add: st1)
  have job': "larodRunJob e (quantize_input mel) = Some (q1, q2)"
    using job by (simp add: cms)
  have over': "confidence_threshold st < p2"
    using over by (simp add: sm)
  show ?thesis
    unfolding process_gunshot_detection_def
    using rdy loud over'
    by (simp add: cms job' sm f Let_def)
qed

lemma pgd_below_state:
  assumes rdy: "ml_ready st" and loud: "\<not> rms_of a < MIN_RMS_THRESHOLD"
    and job: "larodRunJob e (quantize_input (fst (compute_mel_spectrogram e a st))) = Some (q1, q2)"
    and below: "\<not> confidence_threshold st < snd (softmax2 (output_score q1) (output_score q2))"
  shows "process_gunshot_detection e a st =
     (False,
      syslog LOG_INFO ''[CAMERA] Gunshot (below threshold)''
        ((snd (compute_mel_spectrogram e a st))
           \<lparr>input_tensor := quantize_input (fst (compute_mel_spectrogram e a st)),
            larod_jobs := larod_jobs st + 1,
            inference_count := (inference_count st + 1) mod 2 ^ 32\<rparr>))"
proof -
  obtain mel st1 where cms: "compute_mel_spectrogram e a st = (mel, st1)"
    by (cases "compute_mel_spectrogram e a st")
  obtain p1 p2 where sm: "softmax2 (output_score q1) (output_score q2) = (p1, p2)"
    by (cases "softmax2 (output_score q1) (output_score q2)")
  have st1: "st1 = snd (compute_mel_spectrogram e a st)"
    by (simp add: cms)
  have f: "confidence_threshold st1 = confidence_threshold st"
    "larod_jobs st1 = larod_jobs st" "inference_count st1 = inference_count st"
    by (simp_all add: st1)
  have job': "larodRunJob e (quantize_input mel) = Some (q1, q2)"
    using job by (simp add: cms)
  have below': "\<not> confidence_threshold st < p2"
    using below by (simp add: sm)
  show ?thesis
    unfolding process_gunshot_detection_def
    using rdy loud below'
    by (simp add: cms job' sm f Let_def)
qed

lemma pgd_job_failed_state:
  assumes rdy: "ml_ready st" and loud: "\<not> rms_of a < MIN_RMS_THRESHOLD"
    and job: "larodRunJob e (quantize_input (fst (compute_mel_spectrogram e a st))) = None"
  shows "process_gunshot_detection e a st =
     (False,
      syslog LOG_ERR ''Failed to run inference''
        ((snd (compute_mel_spectrogram e a st))
           \<lparr>input_tensor := quantize_input (fst (compute_mel_spectrogram e a st)),
            larod_jobs := larod_jobs st + 1\<rparr>))"
proof -
  obtain mel st1 where cms: "compute_mel_spectrogram e a st = (mel, st1)"
    by (cases "compute_mel_spectrogram e a st")
  have st1: "st1 = snd (compute_mel_spectrogram e a st)"
    by (simp add: cms)
  have f: "larod_jobs st1 = larod_jobs st"
    by (simp add: st1)
  have job': "larodRunJob e (quantize_input mel) = None"
    using job by (simp add: cms)
  show ?thesis
    unfolding process_gunshot_detection_def
    using rdy loud
    by (simp add: cms job' f Let_def)
qed

lemma delivers_cong:
  "email_enabled st' = email_enabled st \<Longrightarrow> smtp_username st' = smtp_username st \<Longrightarrow>
   recipient_email st' = recipient_email st \<Longrightarrow> last_email_time st' = last_email_time st \<Longrightarrow>
   delivers e st' = delivers e st"
  by (simp add: delivers_def)

lemma pgd_detected_effects:
  assumes rdy: "ml_ready st" and loud: "\<not> rms_of a < MIN_RMS_THRESHOLD"
    and job: "larodRunJob e (quantize_input (fst (compute_mel_spectrogram e a st))) = Some (q1, q2)"
    and over: "confidence_threshold st < snd (softmax2 (output_score q1) (output_score q2))"
  shows "fst (process_gunshot_detection e a st)"
    and "detection_count (snd (process_gunshot_detection e a st)) = (detection_count st + 1) mod 2 ^ 32"
    and "inference_count (snd (process_gunshot_detection e a st)) = (inference_count st + 1) mod 2 ^ 32"
    and "larod_jobs (snd (process_gunshot_detection e a st)) = larod_jobs st + 1"
    and "emails_sent (snd (process_gunshot_detection e a st)) =
           (if delivers e st
            then emails_sent st @
                 [(clock_email e, snd (softmax2 (output_score q1) (output_score q2)) * 100, rms_of a)]
            else emails_sent st)"
    and "last_email_time (snd (process_gunshot_detection e a st)) =
           (if delivers e st then clock_email e else last_email_time st)"
proof -
  note eq = pgd_detected_state[OF assms]
  let ?st6 = "syslog LOG_INFO ''[CAMERA] Gunshot (detected)''
                 (syslog LOG_WARNING ''[GUNSHOT DETECTED - CAMERA AUDIO]''
                   ((snd (compute_mel_spectrogram e a st))
                      \<lparr>input_tensor := quantize_input (fst (compute_mel_spectrogram e a st)),
                       larod_jobs := larod_jobs st + 1,
                       inference_count := (inference_count st + 1) mod 2 ^ 32,
                       detection_count := (detection_count st + 1) mod 2 ^ 32\<rparr>))"
  have d: "delivers e ?st6 = delivers e st"
    by (rule delivers_cong) simp_all
  have nd: "\<not> email_enabled st \<Longrightarrow> \<not> delivers e st"
    by (simp add: delivers_def)
  show "fst (process_gunshot_detection e a st)"
    by (simp add: eq)
  show "detection_count (snd (process_gunshot_detection e a st)) = (detection_count st + 1) mod 2 ^ 32"
    by (simp add: eq Let_def)
  show "inference_count (snd (process_gunshot_detection e a st)) = (inference_count st + 1) mod 2 ^ 32"
    by (simp add: eq Let_def)
  show "larod_jobs (snd (process_gunshot_detection e a st)) = larod_jobs st + 1"
    by (simp add: eq Let_def)
  show "emails_sent (snd (process_gunshot_detection e a st)) =
           (if delivers e st
            then emails_sent st @
                 [(clock_email e, snd (softmax2 (output_score q1) (output_score q2)) * 100, rms_of a)]
            else emails_sent st)"
    by (simp add: eq Let_def send_email_notification_emails delivers_def)
  show "last_email_time (snd (process_gunshot_detection e a st)) =
           (if delivers e st then clock_email e else last_email_time st)"
    by (simp add: eq Let_def send_email_notification_emails delivers_def)
qed

lemma pgd_detected_log:
  assumes rdy: "ml_ready st" and loud: "\<not> rms_of a < MIN_RMS_THRESHOLD"
    and job: "larodRunJob e (quantize_input (fst (compute_mel_spectrogram e a st))) = Some (q1, q2)"
    and over: "confidence_threshold st < snd (softmax2 (output_score q1) (output_score q2))"
  shows "count_list (syslog_out (snd (process_gunshot_detection e a st))) detected_line =
         count_list (syslog_out st) detected_line + 1"
proof -
  note eq = pgd_detected_state[OF assms]
  obtain n1 where n1: "syslog_out (snd (compute_mel_spectrogram e a st)) = syslog_out st @ n1"
    "detected_line \<notin> set n1"
    using compute_mel_spectrogram_log by blast
  let ?st6 = "syslog LOG_INFO ''[CAMERA] Gunshot (detected)''
                 (syslog LOG_WARNING ''[GUNSHOT DETECTED - CAMERA AUDIO]''
                   ((snd (compute_mel_spectrogram e a st))
                      \<lparr>input_tensor := quantize_input (fst (compute_mel_spectrogram e a st)),
                       larod_jobs := larod_jobs st + 1,
                       inference_count := (inference_count st + 1) mod 2 ^ 32,
                       detection_count := (detection_count st + 1) mod 2 ^ 32\<rparr>))"
  obtain n2 where n2: "syslog_out (snd (send_email_notification e
      (snd (softmax2 (output_score q1) (output_score q2)) * 100) (rms_of a) ?st6)) = syslog_out ?st6 @ n2"
    "detected_line \<notin> set n2"
    using send_email_notification_log by blast
  have c6: "count_list (syslog_out ?st6) detected_line = count_list (syslog_out st) detected_line + 1"
    using n1 by (simp add: count_list_0_iff[THEN iffD2])
  show ?thesis
  proof (cases "email_enabled st")
    case True
    then show ?thesis
      using n2 c6 by (simp add: eq Let_def count_list_0_iff[THEN iffD2])
  next
    case False
    then show ?thesis
      using c6 by (simp add: eq Let_def)
  qed
qed

lemma pgd_preserves:
  "confidence_threshold (snd (process_gunshot_detection e a st)) = confidence_threshold st \<and>
   email_enabled (snd (process_gunshot_detection e a st)) = email_enabled st \<and>
   smtp_username (snd (process_gunshot_detection e a st)) = smtp_username st \<and>
   recipient_email (snd (process_gunshot_detection e a st)) = recipient_email st \<and>
   ml_ready (snd (process_gunshot_detection e a st)) = ml_ready st \<and>
   audio_buffer (snd (process_gunshot_detection e a st)) = audio_buffer st \<and>
   samples_accumulated (snd (process_gunshot_detection e a st)) = samples_accumulated st"
proof (cases "ml_ready st \<and> \<not> rms_of a < MIN_RMS_THRESHOLD")
  case False
  show ?thesis
  proof (cases "ml_ready st")
    case True
    then have "rms_of a < MIN_RMS_THRESHOLD"
      using False by simp
    then show ?thesis
      using True by (simp add: pgd_quiet)
  next
    case False
    then show ?thesis
      by (simp add: pgd_not_ready)
  qed
next
  case True
  then have rdy: "ml_ready st" and loud: "\<not> rms_of a < MIN_RMS_THRESHOLD"
    by simp_all
  show ?thesis
  proof (cases "larodRunJob e (quantize_input (fst (compute_mel_spectrogram e a st)))")
    case None
    show ?thesis
      by (simp add: pgd_job_failed_state[OF rdy loud None])
  next
    case (Some qs)
    obtain q1 q2 where qs: "qs = (q1, q2)"
      by (cases qs)
    note job = Some[unfolded qs]
    show ?thesis
    proof (cases "confidence_threshold st < snd (softmax2 (output_score q1) (output_score q2))")
      case True
      show ?thesis
        by (simp add: pgd_detected_state[OF rdy loud job True] Let_def)
    next
      case False
      show ?thesis
        by (simp add: pgd_below_state[OF rdy loud job False])
    qed
  qed
qed

lemma softmax2_equal: "softmax2 x x = (1 / 2, 1 / 2)"
proof -
  have "exp x / (exp x + exp x) = 1 / 2"
    using exp_gt_zero[of x] by (simp add: field_simps)
  then show ?thesis
    by (simp add: softmax2_def Let_def)
qed


subsection \<open>Quantizer\<close>

lemma floor_half_close: "\<bar>real_of_int \<lfloor>y + 1 / 2\<rfloor> - y\<bar> \<le> 1 / 2" for y :: real
proof -
  have "real_of_int \<lfloor>y + 1 / 2\<rfloor> \<le> y + 1 / 2"
    by (rule of_int_floor_le)
  moreover have "y + 1 / 2 < real_of_int \<lfloor>y + 1 / 2\<rfloor> + 1"
    by (rule floor_correct[THEN conjunct2, simplified])
  ultimately show ?thesis by linarith
qed

lemma roundf_close: "\<bar>real_of_int (roundf x) - x\<bar> \<le> 1 / 2"
proof (cases "0 \<le> x")
  case True
  then show ?thesis using floor_half_close[of x] by (simp add: roundf_def)
next
  case False
  have "\<bar>real_of_int \<lfloor>- x + 1 / 2\<rfloor> - (- x)\<bar> \<le> 1 / 2"
    by (rule floor_half_close)
  then have "\<bar>- real_of_int \<lfloor>- x + 1 / 2\<rfloor> - x\<bar> \<le> 1 / 2"
    by linarith
  then show ?thesis using False by (simp add: roundf_def)
qed

lemma roundf_nonpos: "x \<le> 0 \<Longrightarrow> roundf x \<le> 0"
  unfolding roundf_def by (auto simp: floor_le_iff le_floor_iff)

lemma roundf_bounds: "0 \<le> x \<Longrightarrow> x \<le> real_of_int n \<Longrightarrow> 0 \<le> roundf x \<and> roundf x \<le> n"
  unfolding roundf_def by (auto simp: floor_le_iff le_floor_iff)

lemma clamp_int8_range: "- 128 \<le> clamp_int8 n \<and> clamp_int8 n \<le> 127"
  by (auto simp: clamp_int8_def Let_def)

lemma sint_quantize_value: "sint (quantize_value v) = clamp_int8 (quantize_pre v)"
  using clamp_int8_range[of "quantize_pre v"]
  by (simp add: quantize_value_def int_word_sint)

lemma scale_pos: "0 < scale"
  by (simp add: scale_def)

lemma quantize_pre_lower:
  assumes "0 \<le> v" "v \<le> 1 / 2"
  shows "quantize_pre v \<le> - 128"
proof -
  have "(v - 1 / 2) * 2 / scale \<le> 0"
    using assms by (simp add: scale_def divide_le_0_iff)
  then have "roundf ((v - 1 / 2) * 2 / scale) \<le> 0"
    by (rule roundf_nonpos)
  then show ?thesis
    by (simp add: quantize_pre_def zero_point_def)
qed

lemma quantize_value_lower:
  assumes "0 \<le> v" "v \<le> 1 / 2"
  shows "quantize_value v = - 128"
proof -
  have "quantize_pre v \<le> - 128"
    using assms by (rule quantize_pre_lower)
  then have "clamp_int8 (quantize_pre v) = - 128"
    by (simp add: clamp_int8_def)
  then show ?thesis by (simp add: quantize_value_def)
qed

lemma dequantize_upper_half:
  assumes "1 / 2 \<le> v" "v \<le> 1"
  shows "\<bar>spec_dequantize (quantize_value v) - (v - 1 / 2) * 2\<bar> \<le> scale / 2"
proof -
  define c where "c = (v - 1 / 2) * 2"
  define x where "x = c / scale"
  note sc = scale_pos
  have c: "0 \<le> c" "c \<le> 1" using assms by (simp_all add: c_def)
  have x0: "0 \<le> x" using c sc by (simp add: x_def)
  have "x \<le> 1 / scale" using c sc by (simp add: x_def divide_right_mono)
  also have "1 / scale \<le> 255" by (simp add: scale_def)
  finally have x1: "x \<le> real_of_int 255" by simp
  from roundf_bounds[OF x0 x1] have r: "0 \<le> roundf x" "roundf x \<le> 255" by simp_all
  have pre: "quantize_pre v = roundf x - 128"
    by (simp add: quantize_pre_def x_def c_def zero_point_def)
  have "clamp_int8 (quantize_pre v) = roundf x - 128"
    using r by (simp add: pre clamp_int8_def)
  then have "spec_dequantize (quantize_value v) = real_of_int (roundf x) * scale"
    by (simp add: spec_dequantize_def sint_quantize_value zero_point_def)
  moreover have "c = x * scale" using sc by (simp add: x_def)
  ultimately have "spec_dequantize (quantize_value v) - c = (real_of_int (roundf x) - x) * scale"
    by (simp add: algebra_simps)
  then have "\<bar>spec_dequantize (quantize_value v) - c\<bar> = \<bar>real_of_int (roundf x) - x\<bar> * scale"
    using sc by (simp add: abs_mult)
  also have "\<dots> \<le> (1 / 2) * scale"
    using roundf_close[of x] sc by (intro mult_right_mono) simp_all
  finally show ?thesis by (simp add: c_def)
qed

text \<open>
  C10. \<^verbatim>\<open>quantize_input\<close> sends every feature value in \<open>[0, 1/2]\<close> to \<open>-128\<close>: the
  re-centred value \<open>(v - 1/2) \<cdot> 2\<close> lies in \<open>[-1, 0]\<close>, the integer before clamping,
  \<open>roundf (centred / scale) + zero_point\<close> with \<open>scale = 0.003921568859368563\<close> and
  \<open>zero_point = -128\<close>, is \<open>-128\<close> or below, and the clamp leaves \<open>-128\<close>. So wherever the
  feature array holds a value of the lower half of the range, the quantized array
  holds \<open>-128\<close>.
\<close>

theorem quantize_lower_half_collapses:
  assumes "i < EXPECTED_INPUT_SIZE" "i < length mel_features"
    and "0 \<le> mel_features ! i" "mel_features ! i \<le> 1 / 2"
  shows "i < length (quantize_input mel_features) \<and>
         quantize_input mel_features ! i = - 128 \<and>
         sint (quantize_input mel_features ! i) = - 128 \<and>
         - 1 \<le> (mel_features ! i - 1 / 2) * 2 \<and> (mel_features ! i - 1 / 2) * 2 \<le> 0 \<and>
         quantize_pre (mel_features ! i) =
           roundf ((mel_features ! i - 1 / 2) * 2 / (3921568859368563 / 10 ^ 18)) + (- 128) \<and>
         quantize_pre (mel_features ! i) \<le> - 128"
proof -
  have len: "i < length (quantize_input mel_features)"
    using assms(1,2) by (simp add: quantize_input_def)
  have nth: "quantize_input mel_features ! i = quantize_value (mel_features ! i)"
    using assms(1,2) by (simp add: quantize_input_def)
  have q: "quantize_value (mel_features ! i) = - 128"
    using assms(3,4) by (rule quantize_value_lower)
  have pre: "quantize_pre (mel_features ! i) \<le> - 128"
    using assms(3,4) by (rule quantize_pre_lower)
  have form: "quantize_pre (mel_features ! i) =
           roundf ((mel_features ! i - 1 / 2) * 2 / (3921568859368563 / 10 ^ 18)) + (- 128)"
    by (simp add: quantize_pre_def scale_def zero_point_def)
  have c: "- 1 \<le> (mel_features ! i - 1 / 2) * 2 \<and> (mel_features ! i - 1 / 2) * 2 \<le> 0"
    using assms(3,4) by simp
  have s: "sint (quantize_input mel_features ! i) = - 128"
    by (simp add: nth q)
  show ?thesis
    using len nth q pre form c s by (simp only: simp_thms)
qed

theorem quantize_lower_half_collapses_witness:
  "quantize_input [3 / 4, 0, 1 / 4, 1 / 2] ! 2 = - 128 \<and>
   sint (quantize_input [3 / 4, 0, 1 / 4, 1 / 2] ! 2) = - 128 \<and>
   quantize_pre ([3 / 4, 0, 1 / 4, 1 / 2] ! 2) \<le> - 128"
proof -
  have a: "2 < EXPECTED_INPUT_SIZE" "2 < length [3 / 4, 0, 1 / 4, 1 / 2 :: real]"
    "0 \<le> [3 / 4, 0, 1 / 4, 1 / 2 :: real] ! 2" "[3 / 4, 0, 1 / 4, 1 / 2 :: real] ! 2 \<le> 1 / 2"
    by (simp_all add: EXPECTED_INPUT_SIZE_def N_MELS_def N_FRAMES_def)
  show ?thesis
    using quantize_lower_half_collapses[OF a] by blast
qed

text \<open>
  C4, as stated, fails: the feature value \<open>1/2\<close> is quantized to \<open>-128\<close>, which the inverse
  affine map sends to \<open>0\<close>, half the feature range away from \<open>1/2\<close> and far more than one
  quantization step.
\<close>

theorem quantize_roundtrip_counterexample:
  "\<not> \<bar>spec_dequantize (quantize_value (1 / 2)) - 1 / 2\<bar> \<le> scale"
  by (simp add: spec_dequantize_def quantize_value_def clamp_int8_def quantize_pre_def
      roundf_def scale_def zero_point_def)

text \<open>
  C4, amended. The quantizer re-centres before it scales, so what the round trip returns is
  the re-centred value \<open>(v - 1/2) \<cdot> 2\<close>, cut off below at zero: for every feature value \<open>v\<close> in
  \<open>[0, 1]\<close>, dequantizing the quantized value lies within one quantization step of
  \<open>max 0 ((v - 1/2) \<cdot> 2)\<close>.
\<close>

theorem quantize_roundtrip_recentred:
  assumes "0 \<le> v" "v \<le> 1"
  shows "\<bar>spec_dequantize (quantize_value v) - max 0 ((v - 1 / 2) * 2)\<bar> \<le> scale"
proof (cases "v \<le> 1 / 2")
  case True
  then have "quantize_value v = - 128"
    using assms quantize_value_lower by blast
  then have "spec_dequantize (quantize_value v) = 0"
    by (simp add: spec_dequantize_def zero_point_def)
  moreover have "max 0 ((v - 1 / 2) * 2) = 0"
    using True by simp
  ultimately show ?thesis by (simp add: scale_def)
next
  case False
  then have h: "1 / 2 \<le> v" by simp
  have "max 0 ((v - 1 / 2) * 2) = (v - 1 / 2) * 2"
    using h by simp
  then show ?thesis
    using dequantize_upper_half[OF h assms(2)] scale_pos by simp
qed

theorem quantize_roundtrip_recentred_witness:
  "(0::real) \<le> 3 / 4 \<and> (3 / 4 :: real) \<le> 1 \<and>
   \<bar>spec_dequantize (quantize_value (3 / 4)) - max 0 ((3 / 4 - 1 / 2) * 2)\<bar> \<le> scale"
  using quantize_roundtrip_recentred[of "3 / 4"] by simp

subsection \<open>Decision and rate limiting\<close>

lemma pgd_no_delivery:
  assumes "\<not> delivers e st"
  shows "emails_sent (snd (process_gunshot_detection e a st)) = emails_sent st \<and>
         last_email_time (snd (process_gunshot_detection e a st)) = last_email_time st"
proof (cases "ml_ready st")
  case False
  then show ?thesis
    by (simp add: pgd_not_ready)
next
  case rdy: True
  show ?thesis
  proof (cases "rms_of a < MIN_RMS_THRESHOLD")
    case True
    then show ?thesis
      using rdy by (simp add: pgd_quiet)
  next
    case loud: False
    show ?thesis
    proof (cases "larodRunJob e (quantize_input (fst (compute_mel_spectrogram e a st)))")
      case None
      show ?thesis
        by (simp add: pgd_job_failed_state[OF rdy loud None])
    next
      case (Some qs)
      obtain q1 q2 where qs: "qs = (q1, q2)"
        by (cases qs)
      note job = Some[unfolded qs]
      show ?thesis
      proof (cases "confidence_threshold st < snd (softmax2 (output_score q1) (output_score q2))")
        case True
        show ?thesis
          using assms pgd_detected_effects(5,6)[OF rdy loud job True] by simp
      next
        case False
        show ?thesis
          by (simp add: pgd_below_state[OF rdy loud job False])
      qed
    qed
  qed
qed

lemma rms_of_single_one: "rms_of [1] = 1"
  by (simp add: rms_of_def sum_squares_def)

lemma stub_env_sel [simp]:
  "clock_email (stub_env t out) = t"
  "larodRunJob (stub_env t out) = (\<lambda>tensor. Some out)"
  "curl_init_ok (stub_env t out)"
  "curl_perform_ok (stub_env t out)"
  by (simp_all add: stub_env_def)

text \<open>
  C1, as stated, fails: the event of the program is the e-mail notification, and the
  notification is switched off in the start-up configuration. There, two passes with
  threshold \<open>0.45\<close> and \<open>prob_positive = 0.5\<close> produce no event, whether no time or 121
  seconds lie between them.
\<close>

theorem detection_events_default_config_counterexample:
  "length (emails_sent (snd (process_gunshot_detection (stub_env 1000000 (0, 0)) [1]
      (snd (process_gunshot_detection (stub_env 1000000 (0, 0)) [1]
        (initial_state\<lparr>ml_ready := True\<rparr>)))))) \<noteq> 1 \<and>
   length (emails_sent (snd (process_gunshot_detection (stub_env 1000121 (0, 0)) [1]
      (snd (process_gunshot_detection (stub_env 1000000 (0, 0)) [1]
        (initial_state\<lparr>ml_ready := True\<rparr>)))))) \<noteq> 2"
proof -
  let ?st = "initial_state\<lparr>ml_ready := True\<rparr>"
  have nd: "\<not> delivers e ?st" for e
    by (simp add: delivers_def initial_state_def)
  have nd1: "\<not> delivers e' (snd (process_gunshot_detection e a ?st))" for e e' a
    using pgd_preserves[of e a ?st] by (simp add: delivers_def initial_state_def)
  have "emails_sent (snd (process_gunshot_detection e' a' (snd (process_gunshot_detection e a ?st)))) = []"
    for e e' a a'
  proof -
    have "emails_sent (snd (process_gunshot_detection e' a' (snd (process_gunshot_detection e a ?st)))) =
          emails_sent (snd (process_gunshot_detection e a ?st))"
      by (rule pgd_no_delivery[OF nd1, THEN conjunct1])
    also have "\<dots> = emails_sent ?st"
      by (rule pgd_no_delivery[OF nd, THEN conjunct1])
    finally show ?thesis
      by (simp add: initial_state_def)
  qed
  then show ?thesis by simp
qed

text \<open>
  C1, amended. Let e-mail notification be enabled and addressed, let the transfers
  succeed, and let the first pass come at least 120 seconds after the last notification
  sent. Then two consecutive passes whose \<open>prob_positive\<close> exceeds the threshold produce
  exactly one detection event when fewer than 120 seconds lie between them, and two
  events otherwise (the cooldown is 120 seconds). On both passes the evaluation, the
  detection count, the inference count and the detection log line occur, also on the
  pass whose event the cooldown suppresses.
\<close>

theorem detection_events_rate_limited:
  assumes rdy: "ml_ready st"
    and mail: "email_enabled st" "smtp_username st \<noteq> []" "recipient_email st \<noteq> []"
    and curl: "curl_init_ok e1" "curl_perform_ok e1" "curl_init_ok e2" "curl_perform_ok e2"
    and idle: "EMAIL_RATE_LIMIT_SECONDS \<le> clock_email e1 - last_email_time st"
    and loud: "\<not> rms_of a1 < MIN_RMS_THRESHOLD" "\<not> rms_of a2 < MIN_RMS_THRESHOLD"
    and job: "larodRunJob e1 = (\<lambda>tensor. Some (n1, p1))" "larodRunJob e2 = (\<lambda>tensor. Some (n2, p2))"
    and over: "confidence_threshold st < snd (softmax2 (output_score n1) (output_score p1))"
              "confidence_threshold st < snd (softmax2 (output_score n2) (output_score p2))"
  shows "let s1 = snd (process_gunshot_detection e1 a1 st);
             s2 = snd (process_gunshot_detection e2 a2 s1);
             event1 = (clock_email e1, snd (softmax2 (output_score n1) (output_score p1)) * 100, rms_of a1);
             event2 = (clock_email e2, snd (softmax2 (output_score n2) (output_score p2)) * 100, rms_of a2)
         in emails_sent s2 =
              emails_sent st @
              (if clock_email e2 - clock_email e1 < EMAIL_RATE_LIMIT_SECONDS
               then [event1] else [event1, event2]) \<and>
            fst (process_gunshot_detection e1 a1 st) \<and>
            fst (process_gunshot_detection e2 a2 s1) \<and>
            detection_count s1 = (detection_count st + 1) mod 2 ^ 32 \<and>
            detection_count s2 = (detection_count s1 + 1) mod 2 ^ 32 \<and>
            inference_count s1 = (inference_count st + 1) mod 2 ^ 32 \<and>
            inference_count s2 = (inference_count s1 + 1) mod 2 ^ 32 \<and>
            count_list (syslog_out s2) detected_line = count_list (syslog_out st) detected_line + 2"
proof -
  define s1 where "s1 = snd (process_gunshot_detection e1 a1 st)"
  define s2 where "s2 = snd (process_gunshot_detection e2 a2 s1)"
  have j1: "larodRunJob e1 (quantize_input (fst (compute_mel_spectrogram e1 a1 st))) = Some (n1, p1)"
    by (simp add: job)
  have j2: "larodRunJob e2 (quantize_input (fst (compute_mel_spectrogram e2 a2 s1))) = Some (n2, p2)"
    by (simp add: job)
  note E1 = pgd_detected_effects[OF rdy loud(1) j1 over(1), folded s1_def]
  note L1 = pgd_detected_log[OF rdy loud(1) j1 over(1), folded s1_def]
  have d1: "delivers e1 st"
    using mail curl idle by (simp add: delivers_def)
  have keep: "confidence_threshold s1 = confidence_threshold st" "email_enabled s1 = email_enabled st"
    "smtp_username s1 = smtp_username st" "recipient_email s1 = recipient_email st"
    "ml_ready s1 = ml_ready st"
    using pgd_preserves[of e1 a1 st] by (simp_all add: s1_def)
  have rdy1: "ml_ready s1" using rdy keep by simp
  have over2: "confidence_threshold s1 < snd (softmax2 (output_score n2) (output_score p2))"
    using over(2) keep by simp
  note E2 = pgd_detected_effects[OF rdy1 loud(2) j2 over2, folded s2_def]
  note L2 = pgd_detected_log[OF rdy1 loud(2) j2 over2, folded s2_def]
  have last1: "last_email_time s1 = clock_email e1"
    using E1(6) d1 by simp
  have d2: "delivers e2 s1 \<longleftrightarrow> \<not> clock_email e2 - clock_email e1 < EMAIL_RATE_LIMIT_SECONDS"
    using mail curl keep last1 by (auto simp add: delivers_def)
  have em1: "emails_sent s1 = emails_sent st @
      [(clock_email e1, snd (softmax2 (output_score n1) (output_score p1)) * 100, rms_of a1)]"
    using E1(5) d1 by simp
  have em2: "emails_sent s2 = emails_sent st @
      (if clock_email e2 - clock_email e1 < EMAIL_RATE_LIMIT_SECONDS
       then [(clock_email e1, snd (softmax2 (output_score n1) (output_score p1)) * 100, rms_of a1)]
       else [(clock_email e1, snd (softmax2 (output_score n1) (output_score p1)) * 100, rms_of a1),
             (clock_email e2, snd (softmax2 (output_score n2) (output_score p2)) * 100, rms_of a2)])"
    using E2(5) d2 em1 by simp
  have lg: "count_list (syslog_out s2) detected_line = count_list (syslog_out st) detected_line + 2"
    using L1 L2 by simp
  show ?thesis
    unfolding Let_def s1_def[symmetric] s2_def[symmetric]
    using em2 E1(1,2,3) E2(1,2,3) lg by simp
qed

text \<open>
  The scenario of the specification: threshold \<open>0.45\<close>, a stub engine whose two equal
  outputs give \<open>prob_positive = 0.5\<close>; with no time between the passes one event, with
  121 seconds two.
\<close>

theorem detection_events_rate_limited_witness:
  "emails_sent (snd (process_gunshot_detection (stub_env 1000000 (0, 0)) [1]
      (snd (process_gunshot_detection (stub_env 1000000 (0, 0)) [1]
        (initial_state\<lparr>ml_ready := True, email_enabled := True, smtp_username := ''camera'',
           recipient_email := ''guard''\<rparr>))))) = [(1000000, 50, 1)] \<and>
   emails_sent (snd (process_gunshot_detection (stub_env 1000121 (0, 0)) [1]
      (snd (process_gunshot_detection (stub_env 1000000 (0, 0)) [1]
        (initial_state\<lparr>ml_ready := True, email_enabled := True, smtp_username := ''camera'',
           recipient_email := ''guard''\<rparr>))))) = [(1000000, 50, 1), (1000121, 50, 1)]"
proof -
  let ?st = "initial_state\<lparr>ml_ready := True, email_enabled := True, smtp_username := ''camera'',
           recipient_email := ''guard''\<rparr>"
  have thr: "confidence_threshold ?st = 45 / 100"
    by (simp add: initial_state_def)
  have over: "confidence_threshold ?st < snd (softmax2 (output_score 0) (output_score 0))"
    by (simp add: thr softmax2_equal)
  have loud: "\<not> rms_of [1] < MIN_RMS_THRESHOLD"
    by (simp add: rms_of_single_one MIN_RMS_THRESHOLD_def)
  have idle: "EMAIL_RATE_LIMIT_SECONDS \<le> clock_email (stub_env 1000000 (0, 0)) - last_email_time ?st"
    by (simp add: initial_state_def EMAIL_RATE_LIMIT_SECONDS_def)
  have st: "ml_ready ?st" "email_enabled ?st" "smtp_username ?st \<noteq> []" "recipient_email ?st \<noteq> []"
    "emails_sent ?st = []"
    by (simp_all add: initial_state_def)
  have a: "emails_sent (snd (process_gunshot_detection (stub_env 1000000 (0, 0)) [1]
      (snd (process_gunshot_detection (stub_env 1000000 (0, 0)) [1] ?st)))) = [(1000000, 50, 1)]"
    using detection_events_rate_limited[of ?st "stub_env 1000000 (0, 0)" "stub_env 1000000 (0, 0)"
        "[1]" "[1]" 0 0 0 0, OF st(1-4) _ _ _ _ idle loud loud _ _ over over]
    by (simp add: Let_def st(5) softmax2_equal rms_of_single_one EMAIL_RATE_LIMIT_SECONDS_def)
  have b: "emails_sent (snd (process_gunshot_detection (stub_env 1000121 (0, 0)) [1]
      (snd (process_gunshot_detection (stub_env 1000000 (0, 0)) [1] ?st)))) =
        [(1000000, 50, 1), (1000121, 50, 1)]"
    using detection_events_rate_limited[of ?st "stub_env 1000000 (0, 0)" "stub_env 1000121 (0, 0)"
        "[1]" "[1]" 0 0 0 0, OF st(1-4) _ _ _ _ idle loud loud _ _ over over]
    by (simp add: Let_def st(5) softmax2_equal rms_of_single_one EMAIL_RATE_LIMIT_SECONDS_def)
  show ?thesis using a b by simp
qed

subsection \<open>Configuration reload\<close>

lemma config_frame_refl [simp]: "config_frame st st"
  by (simp add: config_frame_def)

lemma config_frame_trans: "config_frame a b \<Longrightarrow> config_frame b c \<Longrightarrow> config_frame a c"
  by (simp add: config_frame_def)

lemma config_frame_syslog: "config_frame st (syslog p m st)"
  by (simp add: config_frame_def)

lemma config_frame_threshold: "config_frame st (load_config_threshold line st)"
proof (cases "threshold_scan line")
  case None
  then show ?thesis
    by (simp add: config_frame_def load_config_threshold_def)
next
  case (Some n)
  then show ?thesis
    by (simp add: config_frame_def load_config_threshold_def Let_def)
qed

lemma config_frame_email: "config_frame st (load_config_email line st)"
proof -
  define st1 where "st1 = (case email_enabled_scan line of
                   Some enabled_str \<Rightarrow>
                     syslog LOG_INFO ''[CONFIG] Email notifications''
                       (st\<lparr>email_enabled := (enabled_str = ''yes'')\<rparr>)
                 | None \<Rightarrow> st)"
  define st2 where "st2 = (case smtp_username_scan line of
                   Some u \<Rightarrow> syslog LOG_INFO ''[CONFIG] SMTP username'' (st1\<lparr>smtp_username := u\<rparr>)
                 | None \<Rightarrow> st1)"
  define st3 where "st3 = (case recipient_email_scan line of
            Some r \<Rightarrow> syslog LOG_INFO ''[CONFIG] Recipient email'' (st2\<lparr>recipient_email := r\<rparr>)
          | None \<Rightarrow> st2)"
  have a: "config_frame st st1"
    by (cases "email_enabled_scan line") (simp_all add: st1_def config_frame_def)
  have b: "config_frame st1 st2"
    by (cases "smtp_username_scan line") (simp_all add: st2_def config_frame_def)
  have c: "config_frame st2 st3"
    by (cases "recipient_email_scan line") (simp_all add: st3_def config_frame_def)
  have "load_config_email line st = st3"
    unfolding load_config_email_def Let_def st3_def st2_def st1_def ..
  then show ?thesis
    using config_frame_trans[OF config_frame_trans[OF a b] c] by simp
qed

lemma config_frame_line: "config_frame st (load_config_line line st)"
proof -
  have a: "config_frame st (syslog LOG_INFO ''[CONFIG] Line'' st)"
    by (rule config_frame_syslog)
  have b: "config_frame (syslog LOG_INFO ''[CONFIG] Line'' st)
             (load_config_threshold line (syslog LOG_INFO ''[CONFIG] Line'' st))"
    by (rule config_frame_threshold)
  have c: "config_frame (load_config_threshold line (syslog LOG_INFO ''[CONFIG] Line'' st))
             (load_config_line line st)"
    unfolding load_config_line_def by (rule config_frame_email)
  show ?thesis
    by (rule config_frame_trans[OF config_frame_trans[OF a b] c])
qed

lemma config_frame_fold: "config_frame st (fold load_config_line ls st)"
proof (induction ls arbitrary: st)
  case Nil
  show ?case by simp
next
  case (Cons l ls)
  have "config_frame st (load_config_line l st)"
    by (rule config_frame_line)
  moreover have "config_frame (load_config_line l st) (fold load_config_line ls (load_config_line l st))"
    by (rule Cons.IH)
  ultimately show ?case
    using config_frame_trans by simp
qed

lemma config_frame_load_config: "config_frame st (load_config e st)"
proof (cases "config_file e")
  case None
  then show ?thesis
    by (simp add: load_config_def config_frame_def)
next
  case (Some ls)
  have "config_frame st (syslog LOG_INFO ''[CONFIG] Reading Axis parameter file...''
          (syslog LOG_INFO ''[CONFIG] Loading configuration'' st))"
    by (simp add: config_frame_def)
  then show ?thesis
    using config_frame_fold config_frame_trans by (simp add: load_config_def Some)
qed

lemma config_frame_check: "config_frame st (check_config_changes e st)"
proof -
  have a: "config_frame st (syslog LOG_INFO ''[CONFIG] Configuration file changed, reloading...''
      (st\<lparr>last_config_check := t, last_mtime := m\<rparr>))" for t m
    by (simp add: config_frame_def)
  have b: "config_frame st (load_config e (syslog LOG_INFO ''[CONFIG] Configuration file changed, reloading...''
      (st\<lparr>last_config_check := t, last_mtime := m\<rparr>)))" for t m
    using a config_frame_load_config config_frame_trans by blast
  have c: "config_frame st (st\<lparr>last_config_check := t\<rparr>)" for t
    by (simp add: config_frame_def)
  show ?thesis
    using b c by (simp add: check_config_changes_def Let_def split: option.splits)
qed

subsection \<open>Threshold validation\<close>

lemma load_config_threshold_result:
  "confidence_threshold (load_config_threshold line st) =
     (case threshold_scan line of
        Some n \<Rightarrow> if threshold_key line \<and> 30 \<le> n \<and> n \<le> 70 then real_of_int n / 100
                  else confidence_threshold st
      | None \<Rightarrow> confidence_threshold st)"
  by (simp add: load_config_threshold_def Let_def split: option.splits)

lemma load_config_threshold_rejected_logged:
  assumes "threshold_key line" "threshold_scan line = Some n" "n < 30 \<or> 70 < n"
  shows "confidence_threshold (load_config_threshold line st) = confidence_threshold st \<and>
         last (syslog_out (load_config_threshold line st)) =
           (LOG_WARNING, ''[CONFIG] Threshold out of range (30-70%), keeping'')"
  using assms by (auto simp add: load_config_threshold_def Let_def)


lemma threshold_range_line:
  assumes "30 / 100 \<le> confidence_threshold st \<and> confidence_threshold st \<le> 70 / 100"
  shows "30 / 100 \<le> confidence_threshold (load_config_line line st) \<and>
         confidence_threshold (load_config_line line st) \<le> 70 / 100"
  using assms
  by (simp add: load_config_line_def load_config_email_def load_config_threshold_def Let_def
      split: option.splits)

lemma threshold_range_fold:
  assumes "30 / 100 \<le> confidence_threshold st \<and> confidence_threshold st \<le> 70 / 100"
  shows "30 / 100 \<le> confidence_threshold (fold load_config_line ls st) \<and>
         confidence_threshold (fold load_config_line ls st) \<le> 70 / 100"
  using assms
proof (induction ls arbitrary: st)
  case Nil
  then show ?case by simp
next
  case (Cons l ls)
  show ?case
    using Cons.IH[OF threshold_range_line[OF Cons.prems]] by simp
qed

lemma threshold_range_load_config:
  assumes "30 / 100 \<le> confidence_threshold st \<and> confidence_threshold st \<le> 70 / 100"
  shows "30 / 100 \<le> confidence_threshold (load_config e st) \<and>
         confidence_threshold (load_config e st) \<le> 70 / 100"
proof (cases "config_file e")
  case None
  then show ?thesis using assms by (simp add: load_config_def)
next
  case (Some ls)
  have "30 / 100 \<le> confidence_threshold (syslog LOG_INFO ''[CONFIG] Reading Axis parameter file...''
          (syslog LOG_INFO ''[CONFIG] Loading configuration'' st)) \<and>
        confidence_threshold (syslog LOG_INFO ''[CONFIG] Reading Axis parameter file...''
          (syslog LOG_INFO ''[CONFIG] Loading configuration'' st)) \<le> 70 / 100"
    using assms by simp
  from threshold_range_fold[OF this] show ?thesis
    by (simp add: load_config_def Some)
qed









subsection \<open>Ingest accumulator\<close>

lemmas load_config_fields = config_frame_load_config[unfolded config_frame_def]
lemmas check_config_changes_fields = config_frame_check[unfolded config_frame_def]


lemma on_process_chunk_cases:
  assumes rdy: "ml_ready st"
  obtains
    (rejected) st3 where
      "\<not> (samples_accumulated st + length samples) mod 2 ^ 32 \<le> AUDIO_BUFFER_SIZE"
      "on_process e True (Chunk samples) st = st3"
      "config_frame (st\<lparr>debug_counter := (debug_counter st + 1) mod 2 ^ 32\<rparr>) st3"
  | (stored) st5 where
      "(samples_accumulated st + length samples) mod 2 ^ 32 \<le> AUDIO_BUFFER_SIZE"
      "\<not> INFERENCE_THRESHOLD \<le> (samples_accumulated st + length samples) mod 2 ^ 32"
      "on_process e True (Chunk samples) st = st5"
      "config_frame
         (st\<lparr>debug_counter := (debug_counter st + 1) mod 2 ^ 32,
             audio_buffer := take (samples_accumulated st) (audio_buffer st) @ samples @
                             drop (samples_accumulated st + length samples) (audio_buffer st),
             samples_accumulated := (samples_accumulated st + length samples) mod 2 ^ 32\<rparr>) st5"
  | (consumed) st6 where
      "(samples_accumulated st + length samples) mod 2 ^ 32 \<le> AUDIO_BUFFER_SIZE"
      "INFERENCE_THRESHOLD \<le> (samples_accumulated st + length samples) mod 2 ^ 32"
      "on_process e True (Chunk samples) st =
         (snd (process_gunshot_detection e (take AUDIO_BUFFER_SIZE (audio_buffer st6)) st6))
           \<lparr>samples_accumulated := 0\<rparr>"
      "config_frame
         (st\<lparr>debug_counter := (debug_counter st + 1) mod 2 ^ 32,
             audio_buffer := take (samples_accumulated st) (audio_buffer st) @ samples @
                             drop (samples_accumulated st + length samples) (audio_buffer st),
             samples_accumulated := (samples_accumulated st + length samples) mod 2 ^ 32,
             first_inference := False\<rparr>) st6"
proof -
  define st1 where "st1 = st\<lparr>debug_counter := (debug_counter st + 1) mod 2 ^ 32\<rparr>"
  define st2 where "st2 = (if debug_counter st1 mod 1000 = 1
                            then syslog LOG_INFO ''[CAMERA] Audio activity'' st1 else st1)"
  define st3 where "st3 = (if debug_counter st2 mod 5000 = 0 then load_config e st2 else st2)"
  define st4 where "st4 = st3\<lparr>audio_buffer :=
                                        take (samples_accumulated st3) (audio_buffer st3) @ samples @
                                        drop (samples_accumulated st3 + length samples) (audio_buffer st3),
                                      samples_accumulated :=
                                        (samples_accumulated st3 + length samples) mod 2 ^ 32\<rparr>"
  define st5 where "st5 = check_config_changes e st4"
  define st6 where "st6 = (if first_inference st5
                                        then (syslog LOG_INFO
                                                ''*** STARTING REAL CAMERA AUDIO GUNSHOT DETECTION ***''
                                                st5)\<lparr>first_inference := False\<rparr>
                                        else st5)"
  have f12: "config_frame st1 st2"
    by (simp add: st2_def config_frame_def)
  have f23: "config_frame st2 st3"
    by (simp add: st3_def config_frame_load_config)
  have f13: "config_frame st1 st3"
    by (rule config_frame_trans[OF f12 f23])
  have s3: "samples_accumulated st3 = samples_accumulated st" "audio_buffer st3 = audio_buffer st"
    using f13 by (simp_all add: config_frame_def st1_def)
  define st4' where "st4' = st\<lparr>debug_counter := (debug_counter st + 1) mod 2 ^ 32,
             audio_buffer := take (samples_accumulated st) (audio_buffer st) @ samples @
                             drop (samples_accumulated st + length samples) (audio_buffer st),
             samples_accumulated := (samples_accumulated st + length samples) mod 2 ^ 32\<rparr>"
  have f4: "config_frame st4' st4"
    using f13 by (simp add: config_frame_def st4_def st4'_def st1_def)
  have f45: "config_frame st4 st5"
    by (simp add: st5_def config_frame_check)
  have f5: "config_frame st4' st5"
    by (rule config_frame_trans[OF f4 f45])
  have s5: "samples_accumulated st5 = (samples_accumulated st + length samples) mod 2 ^ 32"
    using f5 by (simp add: config_frame_def st4'_def)
  have f6: "config_frame (st4'\<lparr>first_inference := False\<rparr>) st6"
    using f5 by (auto simp add: config_frame_def st6_def)
  have eq: "on_process e True (Chunk samples) st =
      (if (samples_accumulated st3 + length samples) mod 2 ^ 32 \<le> AUDIO_BUFFER_SIZE then
         (if samples_accumulated st5 \<ge> INFERENCE_THRESHOLD then
            (snd (process_gunshot_detection e (take AUDIO_BUFFER_SIZE (audio_buffer st6)) st6))
               \<lparr>samples_accumulated := 0\<rparr>
          else st5)
       else st3)"
    unfolding st6_def st5_def st4_def st3_def st2_def st1_def on_process_def Let_def
    using rdy by (simp only: pw_buffer.case simp_thms if_True)
  show thesis
  proof (cases "(samples_accumulated st + length samples) mod 2 ^ 32 \<le> AUDIO_BUFFER_SIZE")
    case False
    then show thesis
      using rejected[of st3] eq f13 by (simp add: s3 st1_def)
  next
    case acc: True
    show thesis
    proof (cases "INFERENCE_THRESHOLD \<le> (samples_accumulated st + length samples) mod 2 ^ 32")
      case False
      then show thesis
        using stored[of st5] eq acc f5 by (simp add: s3 s5 st4'_def)
    next
      case True
      then show thesis
        using consumed[of st6] eq acc f6 by (simp add: s3 s5 st4'_def)
    qed
  qed
qed

lemma on_process_buffer:
  assumes rdy: "ml_ready st"
  shows "audio_buffer (on_process e True (Chunk samples) st) =
           (if (samples_accumulated st + length samples) mod 2 ^ 32 \<le> AUDIO_BUFFER_SIZE
            then take (samples_accumulated st) (audio_buffer st) @ samples @
                 drop (samples_accumulated st + length samples) (audio_buffer st)
            else audio_buffer st)"
    and "samples_accumulated (on_process e True (Chunk samples) st) =
           (if (samples_accumulated st + length samples) mod 2 ^ 32 \<le> AUDIO_BUFFER_SIZE
            then (if INFERENCE_THRESHOLD \<le> (samples_accumulated st + length samples) mod 2 ^ 32
                  then 0 else (samples_accumulated st + length samples) mod 2 ^ 32)
            else samples_accumulated st)"
    and "ml_ready (on_process e True (Chunk samples) st)"
proof -
  have "audio_buffer (on_process e True (Chunk samples) st) =
           (if (samples_accumulated st + length samples) mod 2 ^ 32 \<le> AUDIO_BUFFER_SIZE
            then take (samples_accumulated st) (audio_buffer st) @ samples @
                 drop (samples_accumulated st + length samples) (audio_buffer st)
            else audio_buffer st) \<and>
        samples_accumulated (on_process e True (Chunk samples) st) =
           (if (samples_accumulated st + length samples) mod 2 ^ 32 \<le> AUDIO_BUFFER_SIZE
            then (if INFERENCE_THRESHOLD \<le> (samples_accumulated st + length samples) mod 2 ^ 32
                  then 0 else (samples_accumulated st + length samples) mod 2 ^ 32)
            else samples_accumulated st) \<and>
        ml_ready (on_process e True (Chunk samples) st)"
  proof (cases rule: on_process_chunk_cases[OF rdy, of samples e, case_names rejected stored consumed])
    case (rejected st3)
    then show ?thesis
      using rdy by (simp add: config_frame_def)
  next
    case (stored st5)
    then show ?thesis
      using rdy by (simp add: config_frame_def)
  next
    case (consumed st6)
    have "audio_buffer (snd (process_gunshot_detection e (take AUDIO_BUFFER_SIZE (audio_buffer st6)) st6)) =
            audio_buffer st6"
      "ml_ready (snd (process_gunshot_detection e (take AUDIO_BUFFER_SIZE (audio_buffer st6)) st6)) =
            ml_ready st6"
      using pgd_preserves[of e "take AUDIO_BUFFER_SIZE (audio_buffer st6)" st6] by simp_all
    then show ?thesis
      using consumed rdy by (simp add: config_frame_def)
  qed
  then show "audio_buffer (on_process e True (Chunk samples) st) =
           (if (samples_accumulated st + length samples) mod 2 ^ 32 \<le> AUDIO_BUFFER_SIZE
            then take (samples_accumulated st) (audio_buffer st) @ samples @
                 drop (samples_accumulated st + length samples) (audio_buffer st)
            else audio_buffer st)"
    and "samples_accumulated (on_process e True (Chunk samples) st) =
           (if (samples_accumulated st + length samples) mod 2 ^ 32 \<le> AUDIO_BUFFER_SIZE
            then (if INFERENCE_THRESHOLD \<le> (samples_accumulated st + length samples) mod 2 ^ 32
                  then 0 else (samples_accumulated st + length samples) mod 2 ^ 32)
            else samples_accumulated st)"
    and "ml_ready (on_process e True (Chunk samples) st)"
    by simp_all
qed

lemma no_wrap:
  assumes "samples_accumulated st \<le> AUDIO_BUFFER_SIZE" "length samples < 2 ^ 30"
  shows "(samples_accumulated st + length samples) mod 2 ^ 32 = samples_accumulated st + length samples"
proof -
  have "samples_accumulated st + length samples < 180800 + 2 ^ 30"
    using assms by (simp add: AUDIO_BUFFER_SIZE_def)
  also have "\<dots> < (2 ^ 32 :: nat)"
    by simp
  finally show ?thesis
    by simp
qed

lemma on_process_step:
  assumes rdy: "ml_ready st" and inv: "accumulator_inv st" and len: "length samples < 2 ^ 30"
  shows "(if samples_accumulated st + length samples \<le> AUDIO_BUFFER_SIZE
          then audio_buffer (on_process e True (Chunk samples) st) =
                 take (samples_accumulated st) (audio_buffer st) @ samples @
                 drop (samples_accumulated st + length samples) (audio_buffer st) \<and>
               samples_accumulated (on_process e True (Chunk samples) st) =
                 (if INFERENCE_THRESHOLD \<le> samples_accumulated st + length samples
                  then 0 else samples_accumulated st + length samples)
          else audio_buffer (on_process e True (Chunk samples) st) = audio_buffer st \<and>
               samples_accumulated (on_process e True (Chunk samples) st) = samples_accumulated st) \<and>
         accumulator_inv (on_process e True (Chunk samples) st) \<and>
         ml_ready (on_process e True (Chunk samples) st)"
proof -
  have nw: "(samples_accumulated st + length samples) mod 2 ^ 32 = samples_accumulated st + length samples"
    using inv len by (intro no_wrap) (simp_all add: accumulator_inv_def)
  note B = on_process_buffer[OF rdy, of e samples, unfolded nw]
  have "accumulator_inv (on_process e True (Chunk samples) st)"
    using inv by (auto simp add: accumulator_inv_def B)
  then show ?thesis
    using B by simp
qed

lemma on_process_inv:
  assumes "ml_ready st" "accumulator_inv st" "well_formed_buffer b"
  shows "ml_ready (on_process e True b st) \<and> accumulator_inv (on_process e True b st)"
proof (cases b)
  case No_Buffer
  then show ?thesis
    using assms by (simp add: on_process_def accumulator_inv_def)
next
  case Null_Data
  then show ?thesis
    using assms by (simp add: on_process_def)
next
  case (Chunk samples)
  then have "length samples < 2 ^ 30"
    using assms(3) by (simp add: well_formed_buffer_def)
  then show ?thesis
    using on_process_step[OF assms(1,2)] Chunk by simp
qed

lemma run_callbacks_inv:
  assumes "ml_ready st" "accumulator_inv st" "\<forall>(e, b) \<in> set cs. well_formed_buffer b"
  shows "ml_ready (run_callbacks cs st) \<and> accumulator_inv (run_callbacks cs st)"
  using assms
proof (induction cs arbitrary: st)
  case Nil
  then show ?case
    by (simp add: run_callbacks_def)
next
  case (Cons c cs)
  obtain e b where c: "c = (e, b)"
    by (cases c)
  have wf: "well_formed_buffer b" "\<forall>(e, b) \<in> set cs. well_formed_buffer b"
    using Cons.prems(3) c by simp_all
  have step: "ml_ready (on_process e True b st) \<and> accumulator_inv (on_process e True b st)"
    by (rule on_process_inv[OF Cons.prems(1,2) wf(1)])
  have "run_callbacks (c # cs) st = run_callbacks cs (on_process e True b st)"
    by (simp add: run_callbacks_def c)
  then show ?case
    using Cons.IH[OF conjunct1[OF step] conjunct2[OF step] wf(2)] by simp
qed

text \<open>
  C5, amended. On the target stream with the pipeline ready, for every chunk: it is
  copied behind the filled region exactly when \<open>filled + chunk_length \<le> capacity\<close>, and
  otherwise dropped whole with contents and count unchanged; after a copy the count is
  \<open>filled + chunk_length\<close>, or zero when that reaches the inference threshold and the pass
  consumes the buffer. So \<open>0 \<le> filled \<le> capacity\<close> holds after every callback of every
  sequence, appending exactly up to capacity succeeds (and is consumed at once), and a
  chunk is rejected without mutating the buffer only when it would pass the capacity.
\<close>

theorem accumulator_append:
  assumes rdy: "ml_ready st" and inv: "accumulator_inv st" and len: "length samples < 2 ^ 30"
    and wf: "\<forall>(e, b) \<in> set cs. well_formed_buffer b"
  shows "(if samples_accumulated st + length samples \<le> AUDIO_BUFFER_SIZE
          then audio_buffer (on_process e True (Chunk samples) st) =
                 take (samples_accumulated st) (audio_buffer st) @ samples @
                 drop (samples_accumulated st + length samples) (audio_buffer st) \<and>
               samples_accumulated (on_process e True (Chunk samples) st) =
                 (if INFERENCE_THRESHOLD \<le> samples_accumulated st + length samples
                  then 0 else samples_accumulated st + length samples)
          else audio_buffer (on_process e True (Chunk samples) st) = audio_buffer st \<and>
               samples_accumulated (on_process e True (Chunk samples) st) = samples_accumulated st) \<and>
         accumulator_inv (on_process e True (Chunk samples) st) \<and>
         accumulator_inv (run_callbacks cs st)"
  using on_process_step[OF rdy inv len, of e] run_callbacks_inv[OF rdy inv wf] by simp

lemma ready_state_facts:
  "ml_ready (initial_state\<lparr>ml_ready := True\<rparr>)"
  "accumulator_inv (initial_state\<lparr>ml_ready := True\<rparr>)"
  "samples_accumulated (initial_state\<lparr>ml_ready := True\<rparr>) = 0"
  "audio_buffer (initial_state\<lparr>ml_ready := True\<rparr>) = replicate AUDIO_BUFFER_SIZE 0"
  by (simp_all add: initial_state_def accumulator_inv_def)

theorem accumulator_append_witness:
  "samples_accumulated
     (on_process (stub_env 1000000 (0, 0)) True (Chunk [1 / 2]) (initial_state\<lparr>ml_ready := True\<rparr>)) = 1 \<and>
   audio_buffer
     (on_process (stub_env 1000000 (0, 0)) True (Chunk (replicate 180801 (1 / 2)))
        (initial_state\<lparr>ml_ready := True\<rparr>)) = replicate AUDIO_BUFFER_SIZE 0 \<and>
   samples_accumulated
     (on_process (stub_env 1000000 (0, 0)) True (Chunk (replicate 180801 (1 / 2)))
        (initial_state\<lparr>ml_ready := True\<rparr>)) = 0 \<and>
   accumulator_inv
     (run_callbacks [(stub_env 1000000 (0, 0), Chunk [1 / 2]), (stub_env 1000001 (0, 0), No_Buffer)]
        (initial_state\<lparr>ml_ready := True\<rparr>))"
proof -
  let ?st = "initial_state\<lparr>ml_ready := True\<rparr>"
  let ?cs = "[(stub_env 1000000 (0, 0), Chunk [1 / 2]), (stub_env 1000001 (0, 0), No_Buffer)]"
  have wf: "\<forall>(e, b) \<in> set ?cs. well_formed_buffer b"
    by (simp add: well_formed_buffer_def)
  have l1: "length [1 / 2 :: real] < 2 ^ 30"
    by simp
  have l2: "length (replicate 180801 (1 / 2 :: real)) < 2 ^ 30"
    by simp
  show ?thesis
    using accumulator_append[OF ready_state_facts(1,2) l1 wf, of "stub_env 1000000 (0, 0)"]
      accumulator_append[OF ready_state_facts(1,2) l2 wf, of "stub_env 1000000 (0, 0)"]
    by (simp add: ready_state_facts AUDIO_BUFFER_SIZE_def INFERENCE_THRESHOLD_def)
qed

text \<open>
  C5, as stated, fails in its last part: consumption is part of the same callback and
  its threshold lies below the capacity. A chunk that fills the empty buffer exactly to
  capacity is copied, the pass runs and the count returns to zero, so the single sample
  that follows is not rejected: it is stored at the start of the buffer and the count
  becomes one.
\<close>

theorem accumulator_full_then_one_more_counterexample:
  "samples_accumulated
     (on_process (stub_env 1000000 (0, 0)) True (Chunk (replicate 180800 (1 / 2)))
        (initial_state\<lparr>ml_ready := True\<rparr>)) = 0 \<and>
   hd (audio_buffer
     (on_process (stub_env 1000000 (0, 0)) True (Chunk (replicate 180800 (1 / 2)))
        (initial_state\<lparr>ml_ready := True\<rparr>))) = 1 / 2 \<and>
   samples_accumulated
     (on_process (stub_env 1000001 (0, 0)) True (Chunk [1 / 4])
        (on_process (stub_env 1000000 (0, 0)) True (Chunk (replicate 180800 (1 / 2)))
           (initial_state\<lparr>ml_ready := True\<rparr>))) = 1 \<and>
   hd (audio_buffer
     (on_process (stub_env 1000001 (0, 0)) True (Chunk [1 / 4])
        (on_process (stub_env 1000000 (0, 0)) True (Chunk (replicate 180800 (1 / 2)))
           (initial_state\<lparr>ml_ready := True\<rparr>)))) = 1 / 4"
proof -
  let ?st = "initial_state\<lparr>ml_ready := True\<rparr>"
  let ?s1 = "on_process (stub_env 1000000 (0, 0)) True (Chunk (replicate 180800 (1 / 2))) ?st"
  let ?s2 = "on_process (stub_env 1000001 (0, 0)) True (Chunk [1 / 4]) ?s1"
  note B1 = on_process_buffer[OF ready_state_facts(1), of "stub_env 1000000 (0, 0)" "replicate 180800 (1 / 2)"]
  have f1: "samples_accumulated ?s1 = 0"
    using B1(2) by (simp add: ready_state_facts AUDIO_BUFFER_SIZE_def INFERENCE_THRESHOLD_def)
  have b1: "audio_buffer ?s1 = replicate 180800 (1 / 2)"
    using B1(1) by (simp add: ready_state_facts AUDIO_BUFFER_SIZE_def)
  note B2 = on_process_buffer[OF B1(3), of "stub_env 1000001 (0, 0)" "[1 / 4]"]
  have f2: "samples_accumulated ?s2 = 1"
    using B2(2) by (simp add: f1 AUDIO_BUFFER_SIZE_def INFERENCE_THRESHOLD_def)
  have b2: "audio_buffer ?s2 = (1 / 4) # drop 1 (replicate 180800 (1 / 2))"
    using B2(1) by (simp add: f1 b1 AUDIO_BUFFER_SIZE_def)
  show ?thesis
    by (simp add: f1 b1 f2 b2)
qed

subsection \<open>Loudness gate\<close>

lemma fold_sum_squares: "fold (\<lambda>x acc. acc + x * x) xs a = a + (\<Sum>x\<leftarrow>xs. x * x)" for a :: real
  by (induction xs arbitrary: a) simp_all

lemma sum_squares_sum_list: "sum_squares xs = (\<Sum>x\<leftarrow>xs. x * x)"
  by (simp add: sum_squares_def fold_sum_squares)

lemma sum_squares_append: "sum_squares (xs @ ys) = sum_squares xs + sum_squares ys"
  by (simp add: sum_squares_sum_list)

lemma sum_squares_replicate: "sum_squares (replicate n c) = real n * (c * c)"
  by (simp add: sum_squares_sum_list sum_list_replicate)

lemma rms_replicate:
  assumes "0 < n" "0 \<le> c"
  shows "rms_of (replicate n c) = c"
proof -
  have "sum_squares (replicate n c) / real (length (replicate n c)) = c\<^sup>2"
    using assms by (simp add: sum_squares_replicate power2_eq_square)
  then show ?thesis
    using assms by (simp add: rms_of_def)
qed

lemma rms_padded_quiet:
  "rms_of (replicate 88000 (12 / 10000) @ replicate 92800 0) < MIN_RMS_THRESHOLD"
proof -
  have "sum_squares (replicate 88000 (12 / 10000) @ replicate 92800 0) /
          real (length (replicate 88000 (12 / 10000 :: real) @ replicate 92800 0)) < (1 / 1000)\<^sup>2"
    by (simp add: sum_squares_append sum_squares_replicate power2_eq_square)
  then show ?thesis
    unfolding rms_of_def MIN_RMS_THRESHOLD_def
    by (intro real_less_lsqrt) simp_all
qed

lemma init_fft_workspace_ok:
  assumes "fft_alloc_ok e" "fft_plan_ok e"
  shows "fst (init_fft_workspace e st)" and "fft_initialized (snd (init_fft_workspace e st))"
  using assms by (simp_all add: init_fft_workspace_def)

lemma init_mel_filter_bank_ok:
  "fst (init_mel_filter_bank st)" "mel_filters_initialized (snd (init_mel_filter_bank st))"
  by (simp_all add: init_mel_filter_bank_def)

lemma main_init_succeeds:
  assumes "larod_init_ok e" "fft_alloc_ok e" "fft_plan_ok e"
  shows "\<exists>st'. main_init e st = Inr st' \<and> ml_ready st' \<and> fft_initialized st' \<and>
           mel_filters_initialized st' \<and> audio_buffer st' = audio_buffer st \<and>
           samples_accumulated st' = samples_accumulated st \<and> larod_jobs st' = larod_jobs st \<and>
           inference_count st' = inference_count st"
proof -
  define st2 where "st2 = setup_config_monitoring e (load_config e
      (syslog LOG_INFO ''Gunshot Detector v1.1.100 starting - Debug Parameter Parsing'' st))"
  have "config_frame (syslog LOG_INFO ''Gunshot Detector v1.1.100 starting - Debug Parameter Parsing'' st)
          (load_config e (syslog LOG_INFO ''Gunshot Detector v1.1.100 starting - Debug Parameter Parsing'' st))"
    by (rule config_frame_load_config)
  then have k: "audio_buffer st2 = audio_buffer st" "samples_accumulated st2 = samples_accumulated st"
    "larod_jobs st2 = larod_jobs st" "inference_count st2 = inference_count st"
    by (simp_all add: st2_def setup_config_monitoring_def config_frame_def)
  define st3 where "st3 = snd (init_fft_workspace e st2)"
  define st4 where "st4 = snd (init_mel_filter_bank st3)"
  have i3: "init_fft_workspace e st2 = (True, st3)"
    using init_fft_workspace_ok(1)[OF assms(2,3), of st2] by (simp add: st3_def prod_eq_iff)
  have i4: "init_mel_filter_bank st3 = (True, st4)"
    using init_mel_filter_bank_ok(1)[of st3] by (simp add: st4_def prod_eq_iff)
  have f3: "fft_initialized st3"
    unfolding st3_def by (rule init_fft_workspace_ok(2)[OF assms(2,3)])
  have f4: "fft_initialized st4" "mel_filters_initialized st4"
    using f3 by (simp_all add: st4_def init_mel_filter_bank_ok)
  have k4: "audio_buffer st4 = audio_buffer st" "samples_accumulated st4 = samples_accumulated st"
    "larod_jobs st4 = larod_jobs st" "inference_count st4 = inference_count st"
    using k by (simp_all add: st4_def st3_def)
  have "main_init e st = Inr (syslog LOG_INFO ''Machine learning pipeline ready'' (st4\<lparr>ml_ready := True\<rparr>))"
    unfolding main_init_def Let_def st2_def[symmetric]
    using assms(1) by (simp add: i3 i4)
  then show ?thesis
    using f4 k4 by simp
qed

lemma started_stub:
  "ml_ready (started (stub_env t out))"
  "fft_initialized (started (stub_env t out))"
  "mel_filters_initialized (started (stub_env t out))"
  "audio_buffer (started (stub_env t out)) = replicate AUDIO_BUFFER_SIZE 0"
  "samples_accumulated (started (stub_env t out)) = 0"
  "larod_jobs (started (stub_env t out)) = 0"
proof -
  have ok: "larod_init_ok (stub_env t out)" "fft_alloc_ok (stub_env t out)" "fft_plan_ok (stub_env t out)"
    by (simp_all add: stub_env_def)
  obtain st' where st': "main_init (stub_env t out) initial_state = Inr st'" "ml_ready st'"
    "fft_initialized st'" "mel_filters_initialized st'" "audio_buffer st' = audio_buffer initial_state"
    "samples_accumulated st' = samples_accumulated initial_state" "larod_jobs st' = larod_jobs initial_state"
    using main_init_succeeds[OF ok, of initial_state] by blast
  have s: "started (stub_env t out) = st'"
    by (simp add: started_def st'(1))
  show "ml_ready (started (stub_env t out))"
    "fft_initialized (started (stub_env t out))"
    "mel_filters_initialized (started (stub_env t out))"
    "audio_buffer (started (stub_env t out)) = replicate AUDIO_BUFFER_SIZE 0"
    "samples_accumulated (started (stub_env t out)) = 0"
    "larod_jobs (started (stub_env t out)) = 0"
    using st' by (simp_all add: s initial_state_def)
qed

text \<open>
  C2 fails on the code in its first part. The callback hands the whole buffer, all
  \<open>AUDIO_BUFFER_SIZE\<close> entries, to the pass, so the loudness is the root mean square over
  the capacity and not over the filled region. After start-up the buffer holds zeros; a
  first window of 88000 samples of amplitude \<open>0.0012\<close> has an RMS of \<open>0.0012\<close>, above the
  noise floor, yet the RMS over all 180800 entries is below it and the pass is skipped:
  no inference job is run and the silence line is logged.
\<close>

theorem loudness_over_whole_buffer:
  "rms_of (replicate 88000 (12 / 10000)) = 12 / 10000 \<and>
   \<not> rms_of (replicate 88000 (12 / 10000)) < MIN_RMS_THRESHOLD \<and>
   ml_ready (started (stub_env 1000000 (0, 0))) \<and>
   audio_buffer (started (stub_env 1000000 (0, 0))) = replicate AUDIO_BUFFER_SIZE 0 \<and>
   samples_accumulated (started (stub_env 1000000 (0, 0))) = 0 \<and>
   larod_jobs (started (stub_env 1000000 (0, 0))) = 0 \<and>
   larod_jobs
     (on_process (stub_env 1000001 (0, 0)) True (Chunk (replicate 88000 (12 / 10000)))
        (started (stub_env 1000000 (0, 0)))) = 0 \<and>
   samples_accumulated
     (on_process (stub_env 1000001 (0, 0)) True (Chunk (replicate 88000 (12 / 10000)))
        (started (stub_env 1000000 (0, 0)))) = 0 \<and>
   last (syslog_out
     (on_process (stub_env 1000001 (0, 0)) True (Chunk (replicate 88000 (12 / 10000)))
        (started (stub_env 1000000 (0, 0))))) =
     (LOG_DEBUG, ''[SILENCE] Skipping inference on quiet audio'')"
proof -
  let ?e = "stub_env 1000001 (0, 0)"
  let ?c = "replicate 88000 (12 / 10000 :: real)"
  let ?st = "started (stub_env 1000000 (0, 0))"
  note s0 = started_stub[of 1000000 "(0, 0)"]
  have r1: "rms_of ?c = 12 / 10000"
    by (rule rms_replicate) simp_all
  have res: "larod_jobs (on_process ?e True (Chunk ?c) ?st) = 0 \<and>
        samples_accumulated (on_process ?e True (Chunk ?c) ?st) = 0 \<and>
        last (syslog_out (on_process ?e True (Chunk ?c) ?st)) =
          (LOG_DEBUG, ''[SILENCE] Skipping inference on quiet audio'')"
  proof (cases rule: on_process_chunk_cases[OF s0(1), of ?c ?e, case_names rejected stored consumed])
    case (rejected st3)
    then show ?thesis
      by (simp add: s0 AUDIO_BUFFER_SIZE_def)
  next
    case (stored st5)
    then show ?thesis
      by (simp add: s0 INFERENCE_THRESHOLD_def)
  next
    case (consumed st6)
    have b6: "audio_buffer st6 = ?c @ replicate 92800 0" and r6: "ml_ready st6" and j6: "larod_jobs st6 = 0"
      using consumed(4) s0(1) by (simp_all add: config_frame_def s0 AUDIO_BUFFER_SIZE_def)
    have q: "rms_of (take AUDIO_BUFFER_SIZE (audio_buffer st6)) < MIN_RMS_THRESHOLD"
      using rms_padded_quiet by (simp add: b6 AUDIO_BUFFER_SIZE_def)
    have eq: "on_process ?e True (Chunk ?c) ?st =
        (syslog LOG_DEBUG ''[SILENCE] Skipping inference on quiet audio'' st6)\<lparr>samples_accumulated := 0\<rparr>"
      unfolding consumed(3) pgd_quiet[OF r6 q] by simp
    show ?thesis
      unfolding eq by (simp add: j6)
  qed
  show ?thesis
    using res r1 s0 by (simp add: MIN_RMS_THRESHOLD_def)
qed

subsection \<open>Output dequantization and softmax\<close>







subsection \<open>Framing and per-frame features\<close>




















subsection \<open>Workspace initialisation failure\<close>















subsection \<open>Mel filter bank\<close>















lemma length_bin_points: "length bin_points = N_MELS + 2"
  by (simp add: bin_points_def hz_points_def mel_points_def Let_def)













end
